theory Spec2Isabelle
  imports Complex_Main
begin

section \<open>Numeric values\<close>

text \<open>
  The program computes with binary64 floats and three-component numpy arrays
  (state vectors from \<open>parseMPJPL\<close>, \<open>state[:3]\<close> from the ephemeris,
  \<open>np.array([0, 0, 0])\<close>). Finite floats are idealised as real numbers: rounding,
  overflow and underflow are not part of this development, except for the quotient and
  the product that \<open>main\<close> turns into the cycle count and the final epoch. Division by
  zero is: numpy does
  not raise there, it yields \<open>inf\<close> or \<open>nan\<close>, and every operation of the program
  that receives such a value yields an array with a non-finite component again. A float is
  therefore a \<open>real option\<close> and an array a \<open>vec3 option\<close>, where \<open>None\<close>
  stands for a value that is not finite; every operation is strict in \<open>None\<close>.
\<close>

type_synonym vec3 = "real \<times> real \<times> real"
type_synonym ndarray = "vec3 option"
type_synonym pyfloat = "real option"

fun arr_add :: "ndarray \<Rightarrow> ndarray \<Rightarrow> ndarray" where
  "arr_add (Some (x, y, z)) (Some (x', y', z')) = Some (x + x', y + y', z + z')"
| "arr_add _ _ = None"

fun arr_sub :: "ndarray \<Rightarrow> ndarray \<Rightarrow> ndarray" where
  "arr_sub (Some (x, y, z)) (Some (x', y', z')) = Some (x - x', y - y', z - z')"
| "arr_sub _ _ = None"

text \<open>\<open>a * k\<close> for an array \<open>a\<close> and a finite float \<open>k\<close>.\<close>

fun arr_mul :: "ndarray \<Rightarrow> real \<Rightarrow> ndarray" where
  "arr_mul (Some (x, y, z)) k = Some (x * k, y * k, z * k)"
| "arr_mul None k = None"

text \<open>\<open>k * a\<close> for a float \<open>k\<close> and an array \<open>a\<close>.\<close>

fun scal_mul :: "pyfloat \<Rightarrow> ndarray \<Rightarrow> ndarray" where
  "scal_mul (Some k) (Some (x, y, z)) = Some (k * x, k * y, k * z)"
| "scal_mul _ _ = None"

text \<open>\<open>a / k\<close> for an array \<open>a\<close> and a float \<open>k\<close>; every component of \<open>a / 0.0\<close>
  is \<open>inf\<close> or \<open>nan\<close>.\<close>

fun arr_div :: "ndarray \<Rightarrow> pyfloat \<Rightarrow> ndarray" where
  "arr_div (Some (x, y, z)) (Some k) = (if k = 0 then None else Some (x / k, y / k, z / k))"
| "arr_div _ _ = None"

text \<open>\<open>np.linalg.norm\<close> of a one-dimensional array: the Euclidean norm.\<close>

fun linalg_norm :: "ndarray \<Rightarrow> pyfloat" where
  "linalg_norm (Some (x, y, z)) = Some (sqrt (x\<^sup>2 + y\<^sup>2 + z\<^sup>2))"
| "linalg_norm None = None"

text \<open>\<open>k ** 2\<close>.\<close>

fun float_sq :: "pyfloat \<Rightarrow> pyfloat" where
  "float_sq (Some k) = Some (k\<^sup>2)"
| "float_sq None = None"

text \<open>\<open>g / k\<close> for a finite float \<open>g\<close> (numpy scalars: no exception at zero).\<close>

fun float_div :: "real \<Rightarrow> pyfloat \<Rightarrow> pyfloat" where
  "float_div g (Some k) = (if k = 0 then None else Some (g / k))"
| "float_div g None = None"

section \<open>Data model\<close>

text \<open>The classes \<open>MainBody\<close> and \<open>MP\<close>. The two \<open>pos\<close> fields are written
  \<open>MainBody.pos\<close> and \<open>MP.pos\<close>.\<close>

record MainBody =
  name :: string
  pos :: ndarray
  GM :: real

record MP =
  des :: string
  pos :: ndarray
  vel :: ndarray

section \<open>Gravitational acceleration\<close>

text \<open>
  \<open>grav_accel(mp, bodies)\<close>: the loop over \<open>bodies\<close> with the accumulator \<open>accel\<close>,
  which starts as \<open>np.array([0, 0, 0])\<close>. The function reads \<open>mp.pos\<close>, \<open>body.pos\<close>
  and \<open>body.GM\<close> and assigns to local variables only.
\<close>

fun grav_accel_loop :: "ndarray \<Rightarrow> MP \<Rightarrow> MainBody list \<Rightarrow> ndarray" where
  "grav_accel_loop accel mp [] = accel"
| "grav_accel_loop accel mp (body # bodies) =
     (let dist = linalg_norm (arr_sub (MainBody.pos body) (MP.pos mp));
          grav_dir = arr_div (arr_sub (MainBody.pos body) (MP.pos mp)) dist;
          grav_mag = float_div (GM body) (float_sq dist)
      in grav_accel_loop (arr_add accel (scal_mul grav_mag grav_dir)) mp bodies)"

definition grav_accel :: "MP \<Rightarrow> MainBody list \<Rightarrow> ndarray" where
  "grav_accel mp bodies = grav_accel_loop (Some (0, 0, 0)) mp bodies"

section \<open>The integrator step\<close>

definition w1 :: real where "w1 = 0.311790812418427"
definition w2 :: real where "w2 = - 1.55946803821447"
definition w3 :: real where "w3 = - 1.67896928259640"
definition w4 :: real where "w4 = 1.66335809963315"
definition w5 :: real where "w5 = - 1.06458714789183"
definition w6 :: real where "w6 = 1.36934946416871"
definition w7 :: real where "w7 = 0.629030650210433"
definition w0 :: real where "w0 = 1.65899088454396"

definition ds :: "real list" where
  "ds = [w7, w6, w5, w4, w3, w2, w1, w0, w1, w2, w3, w4, w5, w6, w7]"

definition cs :: "real list" where
  "cs = [0.3145153251052165, 0.9991900571895715, 0.15238115813844, 0.29938547587066,
         - 0.007805591481624963, - 1.619218660405435, - 0.6238386128980216,
         0.9853908484811935, 0.9853908484811935, - 0.6238386128980216,
         - 1.619218660405435, - 0.007805591481624963, 0.29938547587066, 0.15238115813844,
         0.9991900571895715, 0.3145153251052165]"

text \<open>
  The three inner loops of a sub-step. The particles are the entries of the list \<open>mps\<close>,
  each entry an object of its own (as \<open>main\<close> builds them); an assignment to an attribute
  replaces the entry. \<open>accels\<close> grows by \<open>append\<close>, and the third loop reads it by the
  index that \<open>enumerate\<close> counts.
\<close>

fun drift_loop :: "real \<Rightarrow> real \<Rightarrow> MP list \<Rightarrow> MP list" where
  "drift_loop c dt [] = []"
| "drift_loop c dt (mp # mps) =
     mp\<lparr>MP.pos := arr_add (MP.pos mp) (arr_mul (arr_mul (vel mp) c) dt)\<rparr> # drift_loop c dt mps"

fun accel_loop :: "ndarray list \<Rightarrow> MP list \<Rightarrow> MainBody list \<Rightarrow> ndarray list" where
  "accel_loop accels [] bodies = accels"
| "accel_loop accels (mp # mps) bodies = accel_loop (accels @ [grav_accel mp bodies]) mps bodies"

fun kick_loop :: "nat \<Rightarrow> ndarray list \<Rightarrow> real \<Rightarrow> real \<Rightarrow> MP list \<Rightarrow> MP list" where
  "kick_loop imp accels d dt [] = []"
| "kick_loop imp accels d dt (mp # mps) =
     mp\<lparr>vel := arr_add (vel mp) (arr_mul (arr_mul (accels ! imp) d) dt)\<rparr>
       # kick_loop (Suc imp) accels d dt mps"

text \<open>
  The state a call of \<open>stepYoshida8(mps, bodies, dt)\<close> can reach: the objects of its two
  list arguments. One pass of the outer loop body, the outer loop over \<open>range(15)\<close>, and
  the function, which returns the two lists as the call leaves them.
\<close>

type_synonym objects = "MP list \<times> MainBody list"

fun substep :: "nat \<Rightarrow> real \<Rightarrow> objects \<Rightarrow> objects" where
  "substep i dt (mps, bodies) =
     (let mps1 = drift_loop (cs ! i) dt mps;
          accels = accel_loop [] mps1 bodies
      in (kick_loop 0 accels (ds ! i) dt mps1, bodies))"

fun substeps :: "nat list \<Rightarrow> real \<Rightarrow> objects \<Rightarrow> objects" where
  "substeps [] dt s = s"
| "substeps (i # is) dt s = substeps is dt (substep i dt s)"

definition stepYoshida8 :: "MP list \<Rightarrow> MainBody list \<Rightarrow> real \<Rightarrow> objects" where
  "stepYoshida8 mps bodies dt =
     (case substeps [0..<15] dt (mps, bodies) of
        (mps', bodies') \<Rightarrow> (drift_loop (cs ! 15) dt mps', bodies'))"

subsection \<open>The step as the specification words it\<close>

text \<open>
  Drift: \<open>position += velocity * c * dt\<close>. Kick: \<open>velocity += accel * d * dt\<close>.
  A sub-step drifts every particle, then computes every particle's acceleration from the
  drifted particles and the given bodies, then kicks every particle with its own
  acceleration. A step is the sub-steps 0 to 14 in this order and one final drift.
\<close>

definition drift :: "real \<Rightarrow> real \<Rightarrow> MP \<Rightarrow> MP" where
  "drift c dt mp = mp\<lparr>MP.pos := arr_add (MP.pos mp) (arr_mul (arr_mul (vel mp) c) dt)\<rparr>"

definition kick :: "real \<Rightarrow> real \<Rightarrow> MP \<Rightarrow> ndarray \<Rightarrow> MP" where
  "kick d dt mp a = mp\<lparr>vel := arr_add (vel mp) (arr_mul (arr_mul a d) dt)\<rparr>"

definition spec_substep :: "nat \<Rightarrow> real \<Rightarrow> MainBody list \<Rightarrow> MP list \<Rightarrow> MP list" where
  "spec_substep i dt bodies mps =
     (let drifted = map (drift (cs ! i) dt) mps;
          accels = map (\<lambda>mp. grav_accel mp bodies) drifted
      in map2 (kick (ds ! i) dt) drifted accels)"

definition spec_step :: "MP list \<Rightarrow> MainBody list \<Rightarrow> real \<Rightarrow> MP list" where
  "spec_step mps bodies dt =
     map (drift (cs ! 15) dt)
       (foldl (\<lambda>ms i. spec_substep i dt bodies ms) mps
          [0, 1, 2, 3, 4, 5, 6, 7, 8, 9, 10, 11, 12, 13, 14])"

subsection \<open>The acceleration as the specification words it\<close>

text \<open>
  \<open>accel = \<Sum> GM_body \<sqdot> (pos_body - pos_particle) / |pos_body - pos_particle|\<^sup>3\<close> over all
  bodies, on finite positions.
\<close>

fun vec_add :: "vec3 \<Rightarrow> vec3 \<Rightarrow> vec3" where
  "vec_add (x, y, z) (x', y', z') = (x + x', y + y', z + z')"

fun vec_sub :: "vec3 \<Rightarrow> vec3 \<Rightarrow> vec3" where
  "vec_sub (x, y, z) (x', y', z') = (x - x', y - y', z - z')"

fun vec_scale :: "real \<Rightarrow> vec3 \<Rightarrow> vec3" where
  "vec_scale k (x, y, z) = (k * x, k * y, k * z)"

fun vec_norm :: "vec3 \<Rightarrow> real" where
  "vec_norm (x, y, z) = sqrt (x\<^sup>2 + y\<^sup>2 + z\<^sup>2)"

fun vec_sum :: "vec3 list \<Rightarrow> vec3" where
  "vec_sum [] = (0, 0, 0)"
| "vec_sum (v # vs) = vec_add v (vec_sum vs)"

definition spec_term :: "vec3 \<Rightarrow> MainBody \<Rightarrow> vec3" where
  "spec_term p body =
     (let q = the (MainBody.pos body)
      in vec_scale (GM body / vec_norm (vec_sub q p) ^ 3) (vec_sub q p))"

definition spec_accel :: "vec3 \<Rightarrow> MainBody list \<Rightarrow> vec3" where
  "spec_accel p bodies = vec_sum (map (spec_term p) bodies)"

section \<open>Exceptions, console output and library calls\<close>

text \<open>
  An exception that leaves a function is a value \<open>Inl e\<close>; \<open>quit()\<close> raises
  \<open>SystemExit\<close>. A function that prints takes the lines printed so far and returns them
  extended, together with its result; the prompt of \<open>input\<close> is such a line.
  \<open>vprint\<close> prints nothing, since \<open>verbose\<close> is \<open>False\<close> and never assigned.
\<close>

datatype py_error = IndexError | ValueError | ZeroDivisionError | AttributeError
  | SystemExit | ConnectionError | SpiceyError | OverflowError

text \<open>
  What the program calls outside itself is a parameter of the model, one field per call:
  the HTTP request, date formatting and parsing, \<open>float\<close> of a string (a finite value
  or \<open>ValueError\<close>), the three regular expressions (the groups of each match), \<open>str\<close>
  of a float, of a datetime and the comma-joined \<open>str\<close> of an array's entries,
  \<open>str.strip\<close>, the two SPICE calls (\<open>spkezr\<close> gives the position \<open>state[:3]\<close>),
  and reading a file (\<open>None\<close> is \<open>FileNotFoundError\<close>). The service answers a URL
  the same way throughout a run. Loading and unloading the SPICE kernels is not modelled.

  A datetime is its number of seconds on the proleptic Gregorian time line (day 1 is
  0001-01-01, so midnight of day \<open>n\<close> is \<open>n \<sqdot> 86400\<close>), a timedelta a number of
  seconds. Both types of Python count whole microseconds and have a range; the model has
  this where \<open>main\<close> computes the final epoch, which the accuracy check requests. The
  dates of the cycles lie between the initial and the final epoch and are only formatted,
  to whole seconds, by the library: the main loop hands \<open>strftime\<close> the exact sum.
\<close>

record response =
  status_code :: int
  "text" :: string

record library =
  requests_get :: "string \<Rightarrow> py_error + response"
  strftime_date :: "real \<Rightarrow> string"
  strftime_iso :: "real \<Rightarrow> string"
  strptime_date :: "string \<Rightarrow> py_error + real"
  float_of :: "string \<Rightarrow> py_error + real"
  position_findall :: "string \<Rightarrow> (string \<times> string \<times> string) list"
  velocity_findall :: "string \<Rightarrow> (string \<times> string \<times> string) list"
  designation_search :: "string \<Rightarrow> (string \<times> string) option"
  str_float :: "pyfloat \<Rightarrow> string"
  str_datetime :: "real \<Rightarrow> string"
  str_array :: "ndarray \<Rightarrow> string"
  str_strip :: "string \<Rightarrow> string"
  str2et :: "string \<Rightarrow> real"
  spkezr :: "string \<Rightarrow> real \<Rightarrow> py_error + ndarray"
  readlines :: "string \<Rightarrow> string list option"

definition AU :: real where "AU = 149597900"

definition day :: real where "day = 60 * 60 * 24"

text \<open>\<open>xs[i]\<close> for an index \<open>i \<ge> 0\<close>.\<close>

definition py_index :: "'a list \<Rightarrow> nat \<Rightarrow> py_error + 'a" where
  "py_index xs i = (if i < length xs then Inr (xs ! i) else Inl IndexError)"

text \<open>\<open>range(n)\<close> for an int \<open>n\<close>: empty when \<open>n \<le> 0\<close>.\<close>

definition py_range :: "int \<Rightarrow> int list" where
  "py_range n = map int [0..<nat n]"

text \<open>\<open>round(x)\<close> of a float: to the nearest int, a tie to the even one.\<close>

definition py_round :: "real \<Rightarrow> int" where
  "py_round x =
     (let n = \<lfloor>x\<rfloor>; r = x - of_int n
      in if r < 1 / 2 then n else if 1 / 2 < r then n + 1 else if even n then n else n + 1)"

text \<open>The binary64 float nearest to a real number, a tie to the one with the even
  significand: with \<open>2\<^sup>e \<le> |x| < 2\<^sup>e\<^sup>+\<^sup>1\<close> the floats around \<open>x\<close> are the multiples of
  \<open>2\<^sup>e\<^sup>-\<^sup>5\<^sup>2\<close>. The exponent is not bounded here; the one use of a float beyond the
  binary64 range, \<open>int\<close> of the quotient, is \<open>float_overflow\<close> below.\<close>

definition float_round :: "real \<Rightarrow> real" where
  "float_round x =
     (if x = 0 then 0
      else (let q = 2 powr (of_int \<lfloor>log 2 \<bar>x\<bar>\<rfloor> - 52)
            in of_int (py_round (x / q)) * q))"

text \<open>Float floor division \<open>a // b\<close>: the floor of the quotient, as a float. And
  \<open>int(x)\<close> of a float: truncation. A quotient of magnitude \<open>2\<^sup>1\<^sup>0\<^sup>2\<^sup>4 - 2\<^sup>9\<^sup>7\<^sup>0\<close> or more
  is not a finite binary64 float but \<open>inf\<close>, and \<open>int(inf)\<close> raises
  \<open>OverflowError\<close>.\<close>

definition floordiv :: "real \<Rightarrow> real \<Rightarrow> py_error + real" where
  "floordiv a b =
     (if b = 0 then Inl ZeroDivisionError else Inr (float_round (of_int \<lfloor>a / b\<rfloor>)))"

definition float_overflow :: real where
  "float_overflow = 2 ^ 1024 - 2 ^ 970"

definition py_int :: "real \<Rightarrow> py_error + int" where
  "py_int x =
     (if float_overflow \<le> \<bar>x\<bar> then Inl OverflowError
      else Inr (if 0 \<le> x then \<lfloor>x\<rfloor> else \<lceil>x\<rceil>))"

text \<open>\<open>n * x\<close> for an int \<open>n\<close> and a float \<open>x\<close>: the product of the float of
  \<open>n\<close> and \<open>x\<close>, as a float.\<close>

definition int_times_float :: "int \<Rightarrow> real \<Rightarrow> real" where
  "int_times_float n x = float_round (float_round (of_int n) * x)"

text \<open>\<open>timedelta(seconds=x)\<close> for a float \<open>x\<close>: the constructor rounds to whole
  microseconds, a tie to the even one, and raises \<open>OverflowError\<close> when the days of the
  result, its microseconds floor-divided by those of a day, exceed 999999999 in
  magnitude. The constructor's own arithmetic on \<open>x\<close> is taken as exact.\<close>

definition timedelta_seconds :: "real \<Rightarrow> py_error + real" where
  "timedelta_seconds x =
     (let us = py_round (x * 1000000);
          days = us div 86400000000
      in if \<bar>days\<bar> \<le> 999999999 then Inr (of_int us / 1000000) else Inl OverflowError)"

text \<open>\<open>d + delta\<close> for a datetime and a timedelta: \<open>OverflowError\<close> unless the day of
  the sum is one of the days 1 to \<open>_MAXORDINAL\<close>, which is 9999-12-31.\<close>

definition MAXORDINAL :: int where
  "MAXORDINAL = 3652059"

definition datetime_add :: "real \<Rightarrow> real \<Rightarrow> py_error + real" where
  "datetime_add d delta =
     (let days = \<lfloor>(d + delta) / day\<rfloor>
      in if 0 < days \<and> days \<le> MAXORDINAL then Inr (d + delta) else Inl OverflowError)"

text \<open>\<open>x / k\<close> for a float \<open>x\<close> and a finite float \<open>k\<close>.\<close>

fun float_over :: "pyfloat \<Rightarrow> real \<Rightarrow> pyfloat" where
  "float_over (Some x) k = (if k = 0 then None else Some (x / k))"
| "float_over None k = None"

section \<open>State-vector retrieval\<close>

type_synonym statevector = "ndarray \<times> ndarray"

text \<open>\<open>[float(value) for value in match]\<close> and \<open>np.array\<close> of it.\<close>

definition float_array :: "library \<Rightarrow> string \<times> string \<times> string \<Rightarrow> py_error + ndarray" where
  "float_array lib m =
     (case m of (a, b, c) \<Rightarrow>
        (case float_of lib a of Inl e \<Rightarrow> Inl e | Inr x \<Rightarrow>
        (case float_of lib b of Inl e \<Rightarrow> Inl e | Inr y \<Rightarrow>
        (case float_of lib c of Inl e \<Rightarrow> Inl e | Inr z \<Rightarrow> Inr (Some (x, y, z))))))"

definition parseMPJPL :: "library \<Rightarrow> string \<Rightarrow> py_error + statevector" where
  "parseMPJPL lib input_string =
     (let position_matches = position_findall lib input_string;
          velocity_matches = velocity_findall lib input_string
      in if 2 \<le> length position_matches \<and> 2 \<le> length velocity_matches then
           (case float_array lib (position_matches ! 1) of Inl e \<Rightarrow> Inl e
            | Inr position_array \<Rightarrow>
               (case float_array lib (velocity_matches ! 1) of Inl e \<Rightarrow> Inl e
                | Inr velocity_array \<Rightarrow> Inr (position_array, velocity_array)))
         else Inl ValueError)"

definition horizons_url :: "string \<Rightarrow> string \<Rightarrow> string \<Rightarrow> string" where
  "horizons_url bodyid start_time stop_time =
     ''https://ssd.jpl.nasa.gov/api/horizons.api''
     @ ''?format=text&EPHEM_TYPE=VECTORS&OBJ_DATA=NO&VEC_TABLE=2&CENTER=''
     @ [CHR 0x27] @ ''500@0'' @ [CHR 0x27]
     @ ''&COMMAND='' @ [CHR 0x27] @ bodyid @ [CHR 0x27]
     @ ''&START_TIME='' @ [CHR 0x27] @ start_time @ [CHR 0x27]
     @ ''&STOP_TIME='' @ [CHR 0x27] @ stop_time @ [CHR 0x27]
     @ ''&STEP_SIZE='' @ [CHR 0x27] @ ''3d'' @ [CHR 0x27]"

text \<open>The branch on \<open>response.status_code\<close>: the state-vector list and the printed lines
  after it.\<close>

definition on_response ::
  "library \<Rightarrow> response \<Rightarrow> statevector list \<Rightarrow> string list
     \<Rightarrow> py_error + statevector list \<times> string list" where
  "on_response lib r state_vectors out =
     (if status_code r = 200 then
        (case parseMPJPL lib (text r) of Inl e \<Rightarrow> Inl e
         | Inr sv \<Rightarrow> Inr (state_vectors @ [sv], out))
      else if status_code r = 400 then Inr (state_vectors, out @ [''Error 400 Bad Request''])
      else if status_code r = 405 then Inr (state_vectors, out @ [''Error 400 Method Not Allowed''])
      else if status_code r = 500 then Inr (state_vectors, out @ [''Error 400 Internal Server Error''])
      else if status_code r = 503 then Inr (state_vectors, out @ [''Error 400 Server Unavailable''])
      else Inr (state_vectors, out))"

fun getMPJPL_loop ::
  "library \<Rightarrow> string \<Rightarrow> string \<Rightarrow> nat \<Rightarrow> nat \<Rightarrow> string list \<Rightarrow> statevector list
     \<Rightarrow> string list \<Rightarrow> string list \<times> (py_error + statevector list)" where
  "getMPJPL_loop lib start_time stop_time n i [] state_vectors out = (out, Inr state_vectors)"
| "getMPJPL_loop lib start_time stop_time n i (d # designations) state_vectors out =
     (let bodyid = ''DES='' @ d;
          url = horizons_url bodyid start_time stop_time
      in case requests_get lib url of Inl e \<Rightarrow> (out, Inl e)
         | Inr r \<Rightarrow>
            (case on_response lib r state_vectors out of Inl e \<Rightarrow> (out, Inl e)
             | Inr (state_vectors1, out1) \<Rightarrow>
                getMPJPL_loop lib start_time stop_time n (Suc i) designations state_vectors1
                  (if 1 < i \<and> i mod 20 = 0
                   then out1 @ [''Getting minor planet state vectors: ''
                                @ str_float lib (Some (real i / real n * 100)) @ '' %'']
                   else out1)))"

definition getMPJPL ::
  "library \<Rightarrow> string list \<Rightarrow> real \<Rightarrow> string list
     \<Rightarrow> string list \<times> (py_error + statevector list)" where
  "getMPJPL lib designations start_time out =
     (let dt_stop_time = start_time + 1 * day;
          stop_time = strftime_date lib dt_stop_time;
          start_time1 = strftime_date lib start_time
      in getMPJPL_loop lib start_time1 stop_time (length designations) 0 designations [] out)"

section \<open>Reading the configuration\<close>

text \<open>
  \<open>read_config\<close> from the point where \<open>filename\<close> and \<open>enter_to_quit\<close> are known
  (the handling of \<open>sys_args\<close>, the filename prompt and the help, citation and license
  keys come before and are not modelled). The local variables \<open>t_0\<close>, \<open>t_f\<close>, \<open>dt\<close>
  and \<open>result_filename\<close> are unbound until a line assigns them: each is an option, and
  reading an unbound one is the \<open>UnboundLocalError\<close> that the four \<open>try\<close> blocks catch.
\<close>

definition startswith :: "string \<Rightarrow> string \<Rightarrow> bool" where
  "startswith s p = (take (length p) s = p)"

definition endswith :: "string \<Rightarrow> string \<Rightarrow> bool" where
  "endswith s p = (length p \<le> length s \<and> drop (length s - length p) s = p)"

text \<open>\<open>s.split(c)[0]\<close>, \<open>s[i:j]\<close> and \<open>s.replace(" ", "")\<close>.\<close>

definition split_first :: "char \<Rightarrow> string \<Rightarrow> string" where
  "split_first c s = takeWhile (\<lambda>x. x \<noteq> c) s"

definition slice :: "nat \<Rightarrow> nat \<Rightarrow> string \<Rightarrow> string" where
  "slice i j s = take (j - i) (drop i s)"

definition remove_spaces :: "string \<Rightarrow> string" where
  "remove_spaces s = filter (\<lambda>x. x \<noteq> CHR '' '') s"

record config_locals =
  var_t_0 :: "real option"
  var_t_f :: "real option"
  var_dt :: "real option"
  var_result_filename :: "string option"
  var_MPdes :: "string list"

definition unbound :: config_locals where
  "unbound = \<lparr>var_t_0 = None, var_t_f = None, var_dt = None, var_result_filename = None,
              var_MPdes = []\<rparr>"

definition process_line :: "library \<Rightarrow> string \<Rightarrow> config_locals \<Rightarrow> py_error + config_locals" where
  "process_line lib line v =
     (if startswith line ''T0 '' then
        (case strptime_date lib
                (remove_spaces (remove_spaces (slice 3 13 (split_first CHR '';'' line)))) of
           Inl e \<Rightarrow> Inl e
         | Inr d \<Rightarrow> Inr (v\<lparr>var_t_0 := Some d\<rparr>))
      else if startswith line ''TF '' then
        (case strptime_date lib
                (remove_spaces (remove_spaces
                   (split_first CHR '' '' (slice 3 13 (split_first CHR '';'' line))))) of
           Inl e \<Rightarrow> Inl e
         | Inr d \<Rightarrow> Inr (v\<lparr>var_t_f := Some d\<rparr>))
      else if startswith line ''DT '' then
        (case float_of lib
                (remove_spaces (remove_spaces
                   (split_first CHR '' '' (split_first CHR '';'' (drop 3 line))))) of
           Inl e \<Rightarrow> Inl e
         | Inr x \<Rightarrow> Inr (v\<lparr>var_dt := Some (x * day)\<rparr>))
      else if startswith line ''MP '' then
        (case designation_search lib line of
           None \<Rightarrow> Inl AttributeError
         | Some (g1, g2) \<Rightarrow> Inr (v\<lparr>var_MPdes := var_MPdes v @ [g1 @ '' '' @ g2]\<rparr>))
      else if startswith line ''RF '' then
        Inr (v\<lparr>var_result_filename := Some (str_strip lib (split_first CHR '';'' (drop 3 line)))\<rparr>)
      else Inr v)"

fun process_lines :: "library \<Rightarrow> string list \<Rightarrow> config_locals \<Rightarrow> py_error + config_locals" where
  "process_lines lib [] v = Inr v"
| "process_lines lib (line # lines) v =
     (case process_line lib line v of Inl e \<Rightarrow> Inl e | Inr v' \<Rightarrow> process_lines lib lines v')"

definition quit_prompt :: "bool \<Rightarrow> string list \<Rightarrow> string list" where
  "quit_prompt enter_to_quit out = (if enter_to_quit then out @ [''Press Enter to quit.''] else out)"

text \<open>The \<open>while True\<close> loop: a missing file is retried once with \<open>.txt\<close> appended.\<close>

function read_loop ::
  "library \<Rightarrow> bool \<Rightarrow> string \<Rightarrow> string list \<Rightarrow> string list \<times> (py_error + config_locals)" where
  "read_loop lib enter_to_quit filename out =
     (case readlines lib filename of
        Some lines \<Rightarrow>
          (case process_lines lib lines unbound of
             Inl e \<Rightarrow> (out, Inl e)
           | Inr v \<Rightarrow> (out @ [''Loading inputs from '' @ filename @ '' ...''], Inr v))
      | None \<Rightarrow>
          (let out1 = out @ [''File '' @ [CHR 0x27] @ filename @ [CHR 0x27] @ '' not found!'']
           in if \<not> endswith filename ''.txt''
              then read_loop lib enter_to_quit (filename @ ''.txt'') out1
              else (quit_prompt enter_to_quit out1, Inl SystemExit)))"
  by pat_completeness auto
termination
  by (relation "measure (\<lambda>(lib, enter_to_quit, filename, out).
                  if endswith filename ''.txt'' then 0 else 1)")
     (auto simp: endswith_def)

text \<open>The four \<open>try\<close> blocks, in the order of the source.\<close>

definition check_assigned ::
  "library \<Rightarrow> bool \<Rightarrow> config_locals \<Rightarrow> string list
     \<Rightarrow> string list \<times> (py_error + real \<times> real \<times> real \<times> string)" where
  "check_assigned lib enter_to_quit v out =
     (case var_t_0 v of
        None \<Rightarrow> (quit_prompt enter_to_quit (out @ [''ERROR: T0 not assigned!'']), Inl SystemExit)
      | Some t_0 \<Rightarrow>
     (let out1 = out @ [''T0 '' @ str_datetime lib t_0] in
      case var_t_f v of
        None \<Rightarrow> (quit_prompt enter_to_quit (out1 @ [''ERROR: TF not assigned!'']), Inl SystemExit)
      | Some t_f \<Rightarrow>
     (let out2 = out1 @ [''TF '' @ str_datetime lib t_f] in
      case var_dt v of
        None \<Rightarrow> (quit_prompt enter_to_quit (out2 @ [''ERROR: DT not assigned!'']), Inl SystemExit)
      | Some dt \<Rightarrow>
     (let out3 = out2 @ [''DT '' @ str_float lib (Some dt) @ '' seconds''] in
      case var_result_filename v of
        None \<Rightarrow> (quit_prompt enter_to_quit (out3 @ [''ERROR: RF not assigned!'']), Inl SystemExit)
      | Some result_filename \<Rightarrow>
          (out3 @ [''RF '' @ result_filename], Inr (t_0, t_f, dt, result_filename))))))"

definition print_designations :: "string list \<Rightarrow> string list \<Rightarrow> string list" where
  "print_designations MPdes out =
     (if MPdes \<noteq> [] \<and> length MPdes < 20
      then out @ [''DES '' @ concat (map (\<lambda>d. d @ '', '') (butlast MPdes)) @ last MPdes]
      else if MPdes \<noteq> []
      then out @ [''There are lots of designations. Not printing them all for performance.'']
      else out @ [''INFO: No minor planets found in input file.''])"

type_synonym config = "real \<times> real \<times> real \<times> string list \<times> string \<times> bool"

definition read_config ::
  "library \<Rightarrow> bool \<Rightarrow> string \<Rightarrow> string list \<Rightarrow> string list \<times> (py_error + config)" where
  "read_config lib enter_to_quit filename out =
     (case read_loop lib enter_to_quit filename
             (out @ ['''', ''Reading inputs from '' @ filename @ ''...'']) of
        (out1, Inl e) \<Rightarrow> (out1, Inl e)
      | (out1, Inr v) \<Rightarrow>
          (let MPdes = var_MPdes v;
               out2 = (if MPdes = []
                       then out1 @ [''Warning: No minor planet designations found in input file.'']
                       else out1) @ ['''', ''Inputs:'']
           in case check_assigned lib enter_to_quit v out2 of
                (out3, Inl e) \<Rightarrow> (out3, Inl e)
              | (out3, Inr (t_0, t_f, dt, result_filename)) \<Rightarrow>
                  (print_designations MPdes out3 @ [''''],
                   Inr (t_0, t_f, dt, MPdes, result_filename, enter_to_quit))))"

section \<open>The run\<close>

text \<open>Particle setup: the loop over \<open>range(len(MP_des))\<close> that reads
  \<open>MP_statevectors[i]\<close> and appends \<open>MP(MP_des[i], sv[0], sv[1])\<close>.\<close>

fun setup_loop ::
  "string list \<Rightarrow> statevector list \<Rightarrow> nat list \<Rightarrow> MP list \<Rightarrow> py_error + MP list" where
  "setup_loop MP_des MP_statevectors [] mps = Inr mps"
| "setup_loop MP_des MP_statevectors (i # is) mps =
     (case py_index MP_statevectors i of Inl e \<Rightarrow> Inl e
      | Inr sv \<Rightarrow>
         (case py_index MP_des i of Inl e \<Rightarrow> Inl e
          | Inr d \<Rightarrow>
             setup_loop MP_des MP_statevectors is
               (mps @ [\<lparr>des = d, pos = fst sv, vel = snd sv\<rparr>])))"

text \<open>\<open>time_interval\<close>, \<open>N_cycles\<close> and \<open>date_final_actual\<close>:
  \<open>(date_final - date_init).total_seconds()\<close>, \<open>int(time_interval // dt) + 1\<close> and
  \<open>date_init + timedelta(seconds=N_cycles * dt)\<close>. The two dates of a configuration are
  midnights; their difference is a whole number of seconds, and \<open>total_seconds\<close> gives
  it exactly.\<close>

definition main_clock :: "real \<Rightarrow> real \<Rightarrow> real \<Rightarrow> py_error + int \<times> real" where
  "main_clock date_init date_final dt =
     (let time_interval = date_final - date_init
      in case floordiv time_interval dt of Inl e \<Rightarrow> Inl e
         | Inr q \<Rightarrow>
            (case py_int q of Inl e \<Rightarrow> Inl e
             | Inr n \<Rightarrow>
                (let N_cycles = n + 1
                 in case timedelta_seconds (int_times_float N_cycles dt) of Inl e \<Rightarrow> Inl e
                    | Inr delta \<Rightarrow>
                       (case datetime_add date_init delta of Inl e \<Rightarrow> Inl e
                        | Inr date_final_actual \<Rightarrow> Inr (N_cycles, date_final_actual)))))"

definition body_names :: "string list" where
  "body_names = [''MERCURY BARYCENTER'', ''VENUS BARYCENTER'', ''EARTH BARYCENTER'',
                 ''MARS BARYCENTER'', ''JUPITER BARYCENTER'', ''SATURN BARYCENTER'',
                 ''URANUS BARYCENTER'', ''NEPTUNE BARYCENTER'', ''SUN'']"

definition body_GMs :: "real list" where
  "body_GMs = [22031.780000000021, 324858.59200000006, 403503.23550225981,
               42828.375214000022, 126712764.80000021, 37940585.200000003,
               5794548.6000000080, 6836527.1005800236, 132712440041.93938]"

definition main_bodies :: "MainBody list" where
  "main_bodies =
     map (\<lambda>i. \<lparr>name = body_names ! i, pos = Some (0, 0, 0), GM = body_GMs ! i\<rparr>) [0..<9]"

text \<open>The main loop. Each cycle resolves every body's position at the cycle's date, calls
  the integrator once, appends a line to \<open>result_str\<close> and prints the progress every 200
  cycles.\<close>

fun update_bodies :: "library \<Rightarrow> real \<Rightarrow> MainBody list \<Rightarrow> py_error + MainBody list" where
  "update_bodies lib t [] = Inr []"
| "update_bodies lib t (body # bodies) =
     (case spkezr lib (name body) t of Inl e \<Rightarrow> Inl e
      | Inr p \<Rightarrow>
         (case update_bodies lib t bodies of Inl e \<Rightarrow> Inl e
          | Inr bodies' \<Rightarrow> Inr (body\<lparr>MainBody.pos := p\<rparr> # bodies')))"

definition result_line :: "library \<Rightarrow> string \<Rightarrow> real \<Rightarrow> objects \<Rightarrow> string" where
  "result_line lib cycle_date elapsed s =
     (case s of (mps, bodies) \<Rightarrow>
        [CHR 0x0A] @ cycle_date @ [CHR 0x09] @ str_float lib (Some elapsed) @ [CHR 0x09]
        @ concat (map (\<lambda>b. str_array lib (MainBody.pos b) @ [CHR 0x09]) bodies)
        @ concat (map (\<lambda>mp. str_array lib (MP.pos mp) @ [CHR 0x09]) mps))"

fun main_loop ::
  "library \<Rightarrow> real \<Rightarrow> real \<Rightarrow> int \<Rightarrow> int list \<Rightarrow> objects \<Rightarrow> string \<Rightarrow> string list
     \<Rightarrow> string list \<times> (py_error + objects \<times> string)" where
  "main_loop lib date_init dt N_cycles [] s result_str out = (out, Inr (s, result_str))"
| "main_loop lib date_init dt N_cycles (cycle # cycles) s result_str out =
     (let cycle_date = strftime_iso lib (date_init + of_int cycle * dt);
          t = str2et lib cycle_date
      in case update_bodies lib t (snd s) of Inl e \<Rightarrow> (out, Inl e)
         | Inr bodies1 \<Rightarrow>
            (let s1 = stepYoshida8 (fst s) bodies1 dt;
                 result_str1 = result_str @ result_line lib cycle_date (of_int cycle * dt) s1;
                 out1 = (if cycle mod 200 = 0
                         then out @ [str_float lib (Some (of_int cycle / of_int N_cycles * 100))
                                     @ ''%'']
                         else out)
             in main_loop lib date_init dt N_cycles cycles s1 result_str1 out1))"

text \<open>The accuracy check: one error per particle, against the state vector with the
  particle's index.\<close>

fun validation_loop ::
  "nat \<Rightarrow> MP list \<Rightarrow> statevector list \<Rightarrow> pyfloat list \<Rightarrow> py_error + pyfloat list" where
  "validation_loop i [] MP_statevectors_final mp_pos_errors = Inr mp_pos_errors"
| "validation_loop i (mp # mps) MP_statevectors_final mp_pos_errors =
     (case py_index MP_statevectors_final i of Inl e \<Rightarrow> Inl e
      | Inr sv \<Rightarrow>
         validation_loop (Suc i) mps MP_statevectors_final
           (mp_pos_errors @ [float_over (linalg_norm (arr_sub (MP.pos mp) (fst sv))) AU]))"

text \<open>From the accuracy check to the end of \<open>main\<close>: the check, its report, and the
  result file, returned as its name and contents.\<close>

definition main_finish ::
  "library \<Rightarrow> string list \<Rightarrow> real \<Rightarrow> string \<Rightarrow> bool \<Rightarrow> MP list \<Rightarrow> string \<Rightarrow> string list
     \<Rightarrow> string list \<times> (py_error + string \<times> string)" where
  "main_finish lib MP_des date_final_actual result_filename enter_to_quit mps result_str out =
     (case getMPJPL lib MP_des date_final_actual out of
        (out1, Inl e) \<Rightarrow> (out1, Inl e)
      | (out1, Inr MP_statevectors_final) \<Rightarrow>
         (case validation_loop 0 mps MP_statevectors_final [] of
            Inl e \<Rightarrow> (out1, Inl e)
          | Inr mp_pos_errors \<Rightarrow>
             (quit_prompt enter_to_quit
                (out1 @ ['''', ''Validation - Minor planet final position errors:'']
                 @ map (\<lambda>e. str_float lib e @ '' AU'') mp_pos_errors
                 @ ['''', ''Writing results to '' @ result_filename @ '' ...'',
                    ''Results exported.'', '''', ''END PROGRAM'']),
              Inr (result_filename, result_str))))"

text \<open>\<open>main\<close>, with the file name and the flag that the first part of \<open>read_config\<close>
  determines from \<open>sys_args\<close> as its arguments. It returns what was printed and either the
  exception that ended the run or the result file.\<close>

definition banner :: "string list" where
  "banner = ['' = = = MINORBIT = = ='', ''Version 2.2.0'', ''Authors: H. A. Guler'', '''']"

definition main ::
  "library \<Rightarrow> bool \<Rightarrow> string \<Rightarrow> string list \<times> (py_error + string \<times> string)" where
  "main lib enter_to_quit0 filename =
     (case read_config lib enter_to_quit0 filename banner of
        (out, Inl e) \<Rightarrow> (out, Inl e)
      | (out, Inr (t_0, t_f, dt, MP_des, result_filename, enter_to_quit)) \<Rightarrow>
     (case getMPJPL lib MP_des t_0 out of
        (out1, Inl e) \<Rightarrow> (out1, Inl e)
      | (out1, Inr MP_statevectors) \<Rightarrow>
     (case setup_loop MP_des MP_statevectors [0..<length MP_des] [] of
        Inl e \<Rightarrow> (out1, Inl e)
      | Inr mps \<Rightarrow>
     (case main_clock t_0 t_f dt of
        Inl e \<Rightarrow> (out1, Inl e)
      | Inr (N_cycles, date_final_actual) \<Rightarrow>
     (case main_loop lib t_0 dt N_cycles (py_range N_cycles) (mps, main_bodies) []
             (out1 @ ['''', ''Propagation starts...'']) of
        (out2, Inl e) \<Rightarrow> (out2, Inl e)
      | (out2, Inr ((mps', bodies'), result_str)) \<Rightarrow>
          main_finish lib MP_des date_final_actual result_filename enter_to_quit mps' result_str
            (out2 @ [''Propagation complete.'']))))))"

section \<open>Notions for stating the properties\<close>

subsection \<open>One particle, and a particle that meets no body\<close>

text \<open>
  The sub-step and the step of a single particle, as the specification words them. A
  particle meets no body when, at each sub-step, its drifted position is finite and is the
  position of no body (all positions finite); \<open>clear_path\<close> says so along the sub-steps
  of one step for a particle whose velocity does not change, and \<open>clear_run\<close> along the
  cycles of the main loop, whose bodies are those the ephemeris gives at each cycle.
\<close>

definition particle_substep :: "nat \<Rightarrow> real \<Rightarrow> MainBody list \<Rightarrow> MP \<Rightarrow> MP" where
  "particle_substep i dt bodies mp =
     (let drifted = drift (cs ! i) dt mp
      in kick (ds ! i) dt drifted (grav_accel drifted bodies))"

definition particle_step :: "MainBody list \<Rightarrow> real \<Rightarrow> MP \<Rightarrow> MP" where
  "particle_step bodies dt mp =
     drift (cs ! 15) dt (foldl (\<lambda>m i. particle_substep i dt bodies m) mp [0..<15])"

definition encounter_free :: "MP \<Rightarrow> MainBody list \<Rightarrow> bool" where
  "encounter_free mp bodies =
     (\<forall>b\<in>set bodies.
        case (MP.pos mp, MainBody.pos b) of (Some p, Some q) \<Rightarrow> q \<noteq> p | _ \<Rightarrow> False)"

fun clear_path :: "nat list \<Rightarrow> real \<Rightarrow> MainBody list \<Rightarrow> MP \<Rightarrow> bool" where
  "clear_path [] dt bodies mp = True"
| "clear_path (i # is) dt bodies mp =
     (encounter_free (drift (cs ! i) dt mp) bodies
      \<and> clear_path is dt bodies (drift (cs ! i) dt mp))"

definition free_step :: "real \<Rightarrow> MP \<Rightarrow> MP" where
  "free_step dt mp = foldl (\<lambda>m i. drift (cs ! i) dt m) mp [0..<16]"

fun clear_run :: "library \<Rightarrow> real \<Rightarrow> real \<Rightarrow> int list \<Rightarrow> MainBody list \<Rightarrow> MP \<Rightarrow> bool" where
  "clear_run lib date_init dt [] bodies mp = True"
| "clear_run lib date_init dt (cycle # cycles) bodies mp =
     (case update_bodies lib (str2et lib (strftime_iso lib (date_init + of_int cycle * dt))) bodies of
        Inl e \<Rightarrow> False
      | Inr bodies1 \<Rightarrow>
          clear_path [0..<15] dt bodies1 mp
          \<and> clear_run lib date_init dt cycles bodies1 (free_step dt mp))"

subsection \<open>Calendar dates\<close>

text \<open>
  The datetime that \<open>strptime\<close> gives for a date text \<open>YYYY-MM-DD\<close> is midnight of that
  day. Its day number is the proleptic Gregorian ordinal of Python's \<open>datetime\<close> module
  (day 1 is 0001-01-01); \<open>midnight\<close> is the datetime in seconds.
\<close>

definition is_leap :: "int \<Rightarrow> bool" where
  "is_leap y = (y mod 4 = 0 \<and> (y mod 100 \<noteq> 0 \<or> y mod 400 = 0))"

definition days_before_year :: "int \<Rightarrow> int" where
  "days_before_year y = (y - 1) * 365 + (y - 1) div 4 - (y - 1) div 100 + (y - 1) div 400"

definition days_before_month :: "int \<Rightarrow> int \<Rightarrow> int" where
  "days_before_month y m =
     sum_list (take (nat (m - 1)) [31, 28, 31, 30, 31, 30, 31, 31, 30, 31, 30, 31])
     + (if 2 < m \<and> is_leap y then 1 else 0)"

definition ymd2ord :: "int \<Rightarrow> int \<Rightarrow> int \<Rightarrow> int" where
  "ymd2ord y m d = days_before_year y + days_before_month y m + d"

definition midnight :: "int \<Rightarrow> int \<Rightarrow> int \<Rightarrow> real" where
  "midnight y m d = of_int (ymd2ord y m d) * day"






subsection \<open>The macro cycles of the engine\<close>



subsection \<open>Position errors, requests and directives\<close>

text \<open>The error of one particle in the accuracy check.\<close>

definition position_error :: "MP \<Rightarrow> statevector \<Rightarrow> pyfloat" where
  "position_error mp sv = float_over (linalg_norm (arr_sub (MP.pos mp) (fst sv))) AU"

text \<open>The request that \<open>getMPJPL\<close> sends for a designation, the status of its response
  (\<open>None\<close> when the request raises), and the line printed for a status.\<close>

definition request :: "library \<Rightarrow> real \<Rightarrow> string \<Rightarrow> py_error + response" where
  "request lib start_time d =
     requests_get lib
       (horizons_url (''DES='' @ d) (strftime_date lib start_time)
          (strftime_date lib (start_time + 1 * day)))"


definition error_line :: "int \<Rightarrow> string option" where
  "error_line c =
     (if c = 400 then Some ''Error 400 Bad Request''
      else if c = 405 then Some ''Error 400 Method Not Allowed''
      else if c = 500 then Some ''Error 400 Internal Server Error''
      else if c = 503 then Some ''Error 400 Server Unavailable''
      else None)"


text \<open>A directive is present when some line starts with its key and a space.\<close>

definition has_directive :: "string \<Rightarrow> string list \<Rightarrow> bool" where
  "has_directive p lines = (\<exists>line\<in>set lines. startswith line p)"

section \<open>Libraries for examples\<close>

text \<open>A library for examples: every request fails, every body is at (0, 5, 0) at all times.\<close>

definition example_library :: library where
  "example_library =
     \<lparr>requests_get = (\<lambda>url. Inl ConnectionError),
      strftime_date = (\<lambda>t. []),
      strftime_iso = (\<lambda>t. []),
      strptime_date = (\<lambda>s. Inl ValueError),
      float_of = (\<lambda>s. Inl ValueError),
      position_findall = (\<lambda>s. []),
      velocity_findall = (\<lambda>s. []),
      designation_search = (\<lambda>s. None),
      str_float = (\<lambda>x. []),
      str_datetime = (\<lambda>t. []),
      str_array = (\<lambda>a. []),
      str_strip = (\<lambda>s. s),
      str2et = (\<lambda>s. 0),
      spkezr = (\<lambda>n t. Inr (Some (0, 5, 0))),
      readlines = (\<lambda>f. None)\<rparr>"

text \<open>A second library for examples: the service answers 400 for 2017 AC64, 404 for
  2017 BM230 and 200 otherwise, with a text whose second matches are the position
  (149597901, 0, 0) and the velocity (0, 1, 0).\<close>

definition horizons_example :: library where
  "horizons_example = example_library
     \<lparr>requests_get := (\<lambda>url.
         if url = horizons_url ''DES=2017 AC64'' [] []
         then Inr \<lparr>status_code = 400, text = []\<rparr>
         else if url = horizons_url ''DES=2017 BM230'' [] []
         then Inr \<lparr>status_code = 404, text = []\<rparr>
         else Inr \<lparr>status_code = 200, text = ''X = 149597901 Y = 0 Z = 0''\<rparr>),
      float_of := (\<lambda>s.
         if s = ''149597901'' then Inr 149597901
         else if s = ''1'' then Inr 1
         else if s = ''0'' then Inr 0
         else Inl ValueError),
      position_findall := (\<lambda>s. [(''0'', ''0'', ''0''), (''149597901'', ''0'', ''0'')]),
      velocity_findall := (\<lambda>s. [(''0'', ''0'', ''0''), (''0'', ''1'', ''0'')])\<rparr>"


text \<open>A third library for examples, with two configuration files: \<open>minorbit.txt\<close> names
  2017 BX232 and 2017 AC64, \<open>no_rf.txt\<close> has no RF line.\<close>

definition config_example :: library where
  "config_example = horizons_example
     \<lparr>strptime_date := (\<lambda>s.
         if s = ''2024-01-01'' then Inr (midnight 2024 1 1)
         else if s = ''2024-01-11'' then Inr (midnight 2024 1 11)
         else Inl ValueError),
      float_of := (\<lambda>s.
         if s = ''1'' @ [CHR 0x0A] then Inr 1 else float_of horizons_example s),
      designation_search := (\<lambda>s.
         if startswith s ''MP 2017 AC64'' then Some (''2017'', ''AC64'')
         else if startswith s ''MP 2017 BX232'' then Some (''2017'', ''BX232'')
         else None),
      str_strip := (\<lambda>s. filter (\<lambda>c. c \<noteq> CHR 0x0A) s),
      readlines := (\<lambda>f.
         if f = ''minorbit.txt''
         then Some [''T0 2024-01-01'' @ [CHR 0x0A], ''TF 2024-01-11'' @ [CHR 0x0A],
                    ''DT 1'' @ [CHR 0x0A], ''MP 2017 BX232'' @ [CHR 0x0A],
                    ''MP 2017 AC64'' @ [CHR 0x0A], ''RF results.txt'' @ [CHR 0x0A]]
         else if f = ''no_rf.txt''
         then Some [''T0 2024-01-01'' @ [CHR 0x0A], ''TF 2024-01-11'' @ [CHR 0x0A],
                    ''DT 1'' @ [CHR 0x0A], ''MP 2017 BX232'' @ [CHR 0x0A]]
         else None)\<rparr>"


section \<open>Properties of the integrator step\<close>

subsection \<open>The loops as maps\<close>

lemma drift_loop_map: "drift_loop c dt mps = map (drift c dt) mps"
  by (induction mps) (simp_all add: drift_def)

lemma accel_loop_map:
  "accel_loop accels mps bodies = accels @ map (\<lambda>mp. grav_accel mp bodies) mps"
  by (induction mps arbitrary: accels) simp_all

text \<open>The index that \<open>enumerate\<close> counts stays inside \<open>accels\<close>, and it pairs the
  particle at position \<open>imp\<close> with the acceleration computed for it.\<close>

lemma kick_loop_map2:
  "imp + length mps \<le> length accels \<Longrightarrow>
   kick_loop imp accels d dt mps = map2 (kick d dt) mps (drop imp accels)"
proof (induction mps arbitrary: imp)
  case Nil
  show ?case by simp
next
  case (Cons mp mps)
  from Cons.prems have lt: "imp < length accels" by simp
  from Cons.prems have "Suc imp + length mps \<le> length accels" by simp
  then have IH: "kick_loop (Suc imp) accels d dt mps = map2 (kick d dt) mps (drop (Suc imp) accels)"
    by (rule Cons.IH)
  from lt have "drop imp accels = accels ! imp # drop (Suc imp) accels"
    by (simp add: Cons_nth_drop_Suc)
  with IH show ?case by (simp add: kick_def)
qed

lemma substep_spec: "substep i dt (mps, bodies) = (spec_substep i dt bodies mps, bodies)"
  by (simp add: spec_substep_def Let_def drift_loop_map accel_loop_map kick_loop_map2)

lemma substeps_spec:
  "substeps js dt (mps, bodies) = (foldl (\<lambda>ms i. spec_substep i dt bodies ms) mps js, bodies)"
  by (induction js arbitrary: mps) (simp_all add: substep_spec del: substep.simps)

lemma range15: "[0..<15] = [0, 1, 2, 3, 4, 5, 6, 7, 8, 9, 10, 11, 12, 13, 14]"
  by (simp add: upt_rec)

text \<open>
  Claim C1. For every particle list, body list and step duration, the particles that one
  call of \<open>stepYoshida8\<close> leaves are those of the specification's step: the sub-steps
  0 to 14 in index order, each one the drift of every particle by \<open>velocity * c[i] * dt\<close>,
  then every particle's acceleration from the drifted particles and the given bodies, then
  the kick of every particle by its acceleration \<open>* d[i] * dt\<close>, and after them one
  drift by \<open>velocity * c[15] * dt\<close>.
\<close>

theorem stepYoshida8_phases:
  "fst (stepYoshida8 mps bodies dt) = spec_step mps bodies dt"
  by (simp add: stepYoshida8_def spec_step_def substeps_spec drift_loop_map range15)

subsection \<open>The coefficients\<close>

text \<open>
  Claim C3. There are 16 position weights and 15 velocity weights. The decimal values of the
  velocity weights add up to 1, and those of the position weights to 1 within
  \<open>2\<^sup>-\<^sup>5\<^sup>2\<close>, the spacing of binary64 floats at 1.
\<close>

theorem coefficient_normalization:
  "length cs = 16 \<and> length ds = 15 \<and> sum_list ds = 1 \<and> \<bar>sum_list cs - 1\<bar> \<le> 1 / 2 ^ 52"
  by (simp add: cs_def ds_def w0_def w1_def w2_def w3_def w4_def w5_def w6_def w7_def)

section \<open>Properties of the gravitational acceleration\<close>

lemma vec_norm_zero_iff: "vec_norm (vec_sub q p) = 0 \<longleftrightarrow> q = p"
proof (cases q, cases p)
  fix a b c x y z
  assume "q = (a, b, c)" "p = (x, y, z)"
  moreover have "(a - x)\<^sup>2 + (b - y)\<^sup>2 + (c - z)\<^sup>2 = 0 \<longleftrightarrow> a = x \<and> b = y \<and> c = z"
  proof -
    have "(a - x)\<^sup>2 + (b - y)\<^sup>2 + (c - z)\<^sup>2 = 0
          \<longleftrightarrow> (a - x)\<^sup>2 + (b - y)\<^sup>2 = 0 \<and> (c - z)\<^sup>2 = 0"
      by (rule add_nonneg_eq_0_iff) simp_all
    then show ?thesis by auto
  qed
  ultimately show ?thesis by simp
qed

lemma body_term:
  assumes "q \<noteq> p"
  shows "scal_mul (float_div g (float_sq (linalg_norm (arr_sub (Some q) (Some p)))))
           (arr_div (arr_sub (Some q) (Some p)) (linalg_norm (arr_sub (Some q) (Some p))))
         = Some (vec_scale (g / vec_norm (vec_sub q p) ^ 3) (vec_sub q p))"
proof -
  obtain a b c where q: "q = (a, b, c)" by (cases q)
  obtain x y z where p: "p = (x, y, z)" by (cases p)
  define r where "r = sqrt ((a - x)\<^sup>2 + (b - y)\<^sup>2 + (c - z)\<^sup>2)"
  from assms have "vec_norm (vec_sub q p) \<noteq> 0" by (simp add: vec_norm_zero_iff)
  then have r: "r \<noteq> 0" by (simp add: q p r_def)
  show ?thesis
    using r by (simp add: q p r_def [symmetric]) (simp add: power2_eq_square power3_eq_cube)
qed

lemma grav_accel_loop_sum:
  assumes "MP.pos mp = Some p"
    and "\<forall>b\<in>set bodies. \<exists>q. MainBody.pos b = Some q \<and> q \<noteq> p"
  shows "grav_accel_loop (Some a) mp bodies = Some (vec_add a (spec_accel p bodies))"
  using assms(2)
proof (induction bodies arbitrary: a)
  case Nil
  show ?case by (cases a) (simp add: spec_accel_def)
next
  case (Cons body bodies)
  from Cons.prems obtain q where q: "MainBody.pos body = Some q" "q \<noteq> p" by auto
  from Cons.prems have rest: "\<forall>b\<in>set bodies. \<exists>q. MainBody.pos b = Some q \<and> q \<noteq> p" by simp
  define t where "t = vec_scale (GM body / vec_norm (vec_sub q p) ^ 3) (vec_sub q p)"
  have t: "spec_term p body = t" by (simp add: spec_term_def q t_def)
  have add: "arr_add (Some a) (Some t) = Some (vec_add a t)"
    by (cases a, cases t) simp
  have assoc: "vec_add (vec_add a t) s = vec_add a (vec_add t s)" for s
    by (cases a, cases t, cases s) simp
  show ?case
    using Cons.IH [OF rest, of "vec_add a t"] body_term [OF q(2), of "GM body"]
    by (simp add: assms(1) q Let_def t_def [symmetric] add spec_accel_def t assoc)
qed

text \<open>
  Claim C2. For a particle at a finite position \<open>p\<close> and bodies at finite positions, none
  of them at \<open>p\<close>, \<open>grav_accel\<close> returns the sum over all bodies of the list, each with
  the same weight, of \<open>GM \<sqdot> (q - p) / |q - p|\<^sup>3\<close>. The function is a function of the
  values it reads: its embedding has no state to change.
\<close>

theorem grav_accel_sum:
  assumes "MP.pos mp = Some p"
    and "\<forall>b\<in>set bodies. \<exists>q. MainBody.pos b = Some q \<and> q \<noteq> p"
  shows "grav_accel mp bodies = Some (spec_accel p bodies)"
proof -
  have "vec_add (0, 0, 0) v = v" for v by (cases v) simp
  with grav_accel_loop_sum [OF assms, of "(0, 0, 0)"] show ?thesis
    by (simp add: grav_accel_def)
qed

theorem grav_accel_sum_witness:
  "MP.pos \<lparr>des = ''2017 BX232'', pos = Some (0, 0, 0), vel = Some (0, 1, 0)\<rparr> = Some (0, 0, 0)
   \<and> MainBody.pos \<lparr>name = ''SUN'', pos = Some (2, 0, 0), GM = 8\<rparr> = Some (2, 0, 0)
   \<and> (2, 0, 0) \<noteq> (0 :: real, 0 :: real, 0 :: real)
   \<and> MainBody.pos \<lparr>name = ''EARTH BARYCENTER'', pos = Some (0, 0, - 1), GM = 3\<rparr>
       = Some (0, 0, - 1)
   \<and> (0, 0, - 1) \<noteq> (0 :: real, 0 :: real, 0 :: real)
   \<and> grav_accel \<lparr>des = ''2017 BX232'', pos = Some (0, 0, 0), vel = Some (0, 1, 0)\<rparr>
         [\<lparr>name = ''SUN'', pos = Some (2, 0, 0), GM = 8\<rparr>,
          \<lparr>name = ''EARTH BARYCENTER'', pos = Some (0, 0, - 1), GM = 3\<rparr>]
       = Some (2, 0, - 3)"
  using grav_accel_sum [of "\<lparr>des = ''2017 BX232'', pos = Some (0, 0, 0), vel = Some (0, 1, 0)\<rparr>"
      "(0, 0, 0)" "[\<lparr>name = ''SUN'', pos = Some (2, 0, 0), GM = 8\<rparr>,
                  \<lparr>name = ''EARTH BARYCENTER'', pos = Some (0, 0, - 1), GM = 3\<rparr>]"]
  by (simp add: spec_accel_def spec_term_def)

section \<open>The bodies during a step\<close>

lemma substeps_append: "substeps (js @ [i]) dt s = substep i dt (substeps js dt s)"
  by (induction js arbitrary: s) (simp_all del: substep.simps)

lemma snd_substeps: "snd (substeps js dt (mps, bodies)) = bodies"
  by (simp add: substeps_spec)

text \<open>
  Claim C9. A call of \<open>stepYoshida8\<close> leaves the body list as it receives it: names,
  positions and GM values. The same holds after any sequence of sub-steps, so the sub-step
  that follows computes its accelerations from the bodies the step was called with; the
  step has no access to the ephemeris.
\<close>

theorem stepYoshida8_bodies_fixed:
  "snd (stepYoshida8 mps bodies dt) = bodies
   \<and> snd (substeps js dt (mps, bodies)) = bodies
   \<and> substeps (js @ [i]) dt (mps, bodies) =
       (let mps1 = drift_loop (cs ! i) dt (fst (substeps js dt (mps, bodies)));
            accels = accel_loop [] mps1 bodies
        in (kick_loop 0 accels (ds ! i) dt mps1, bodies))"
proof -
  have "snd (stepYoshida8 mps bodies dt) = bodies"
    by (simp add: stepYoshida8_def substeps_spec)
  moreover have "substeps js dt (mps, bodies) = (fst (substeps js dt (mps, bodies)), bodies)"
    by (simp add: substeps_spec)
  then have "substeps (js @ [i]) dt (mps, bodies)
      = substep i dt (fst (substeps js dt (mps, bodies)), bodies)"
    by (simp only: substeps_append)
  ultimately show ?thesis
    by (simp add: snd_substeps)
qed

section \<open>Force-free motion\<close>

lemma spec_substep_particles:
  "spec_substep i dt bodies mps = map (particle_substep i dt bodies) mps"
  by (induction mps) (simp_all add: spec_substep_def particle_substep_def Let_def)

lemma foldl_spec_substep:
  "foldl (\<lambda>ms i. spec_substep i dt bodies ms) mps js
   = map (\<lambda>mp. foldl (\<lambda>m i. particle_substep i dt bodies m) mp js) mps"
  by (induction js arbitrary: mps) (simp_all add: spec_substep_particles o_def)

lemma stepYoshida8_particles:
  "stepYoshida8 mps bodies dt = (map (particle_step bodies dt) mps, bodies)"
  by (simp add: stepYoshida8_def substeps_spec drift_loop_map foldl_spec_substep
      particle_step_def o_def)

lemma grav_accel_loop_None: "grav_accel_loop None mp bodies = None"
  by (induction bodies) (simp_all add: Let_def)

lemma zero_term:
  "scal_mul (float_div 0 (float_sq (linalg_norm (arr_sub b a))))
            (arr_div (arr_sub b a) (linalg_norm (arr_sub b a)))
   = (if \<exists>p q. a = Some p \<and> b = Some q \<and> q \<noteq> p then Some (0, 0, 0) else None)"
proof (cases a)
  case None
  then show ?thesis by (cases b) simp_all
next
  case (Some p)
  show ?thesis
  proof (cases b)
    case None
    then show ?thesis by simp
  next
    case (Some q)
    obtain x y z where p: "p = (x, y, z)" by (cases p)
    obtain x' y' z' where q: "q = (x', y', z')" by (cases q)
    have "vec_norm (vec_sub q p) = 0 \<longleftrightarrow> q = p" by (rule vec_norm_zero_iff)
    then have "sqrt ((x' - x)\<^sup>2 + (y' - y)\<^sup>2 + (z' - z)\<^sup>2) = 0 \<longleftrightarrow> q = p"
      by (simp add: p q)
    then show ?thesis
      using \<open>a = Some p\<close> \<open>b = Some q\<close> by (auto simp: p q)
  qed
qed

lemma arr_add_zero: "arr_add acc (Some (0, 0, 0)) = acc"
  by (cases acc) auto

lemma arr_add_None: "arr_add acc None = None"
  by (cases acc) auto

lemma grav_accel_loop_zero:
  "\<forall>b\<in>set bodies. GM b = 0 \<Longrightarrow>
   grav_accel_loop acc mp bodies = (if encounter_free mp bodies then acc else None)"
proof (induction bodies arbitrary: acc)
  case Nil
  show ?case by (simp add: encounter_free_def)
next
  case (Cons b bodies)
  then have IH: "grav_accel_loop acc' mp bodies = (if encounter_free mp bodies then acc' else None)"
    for acc' by simp
  from Cons.prems have g: "GM b = 0" by simp
  have split: "encounter_free mp (b # bodies) \<longleftrightarrow>
      (\<exists>p q. MP.pos mp = Some p \<and> MainBody.pos b = Some q \<and> q \<noteq> p) \<and> encounter_free mp bodies"
    by (auto simp: encounter_free_def split: option.splits)
  have step: "grav_accel_loop acc mp (b # bodies)
      = grav_accel_loop (arr_add acc
          (if \<exists>p q. MP.pos mp = Some p \<and> MainBody.pos b = Some q \<and> q \<noteq> p
           then Some (0, 0, 0) else None)) mp bodies"
    by (simp only: grav_accel_loop.simps Let_def g zero_term)
  show ?case
  proof (cases "\<exists>p q. MP.pos mp = Some p \<and> MainBody.pos b = Some q \<and> q \<noteq> p")
    case True
    then show ?thesis
      by (simp only: step split if_True arr_add_zero IH simp_thms)
  next
    case False
    then show ?thesis
      by (simp only: step split if_False arr_add_None grav_accel_loop_None simp_thms)
  qed
qed

lemma grav_accel_zero:
  "\<forall>b\<in>set bodies. GM b = 0 \<Longrightarrow>
   grav_accel mp bodies = (if encounter_free mp bodies then Some (0, 0, 0) else None)"
  by (simp add: grav_accel_def grav_accel_loop_zero)

lemma vel_drift: "vel (drift c dt mp) = vel mp"
  by (simp add: drift_def)

lemma particle_substep_free:
  assumes "\<forall>b\<in>set bodies. GM b = 0" and "vel mp = Some v"
    and "encounter_free (drift (cs ! i) dt mp) bodies"
  shows "particle_substep i dt bodies mp = drift (cs ! i) dt mp"
proof -
  obtain a b c where v: "v = (a, b, c)" by (cases v)
  show ?thesis
    using assms by (simp add: particle_substep_def Let_def grav_accel_zero kick_def vel_drift v)
qed

lemma foldl_particle_substep_free:
  assumes "\<forall>b\<in>set bodies. GM b = 0"
  shows "vel mp = Some v \<Longrightarrow> clear_path js dt bodies mp \<Longrightarrow>
         foldl (\<lambda>m i. particle_substep i dt bodies m) mp js
         = foldl (\<lambda>m i. drift (cs ! i) dt m) mp js"
proof (induction js arbitrary: mp)
  case Nil
  show ?case by simp
next
  case (Cons i js)
  from Cons.prems have e: "encounter_free (drift (cs ! i) dt mp) bodies"
    and c: "clear_path js dt bodies (drift (cs ! i) dt mp)" by simp_all
  have "particle_substep i dt bodies mp = drift (cs ! i) dt mp"
    using assms Cons.prems(1) e by (rule particle_substep_free)
  moreover have "vel (drift (cs ! i) dt mp) = Some v"
    using Cons.prems(1) by (simp add: vel_drift)
  ultimately show ?case
    using Cons.IH [OF _ c] by simp
qed

lemma particle_step_free:
  assumes "\<forall>b\<in>set bodies. GM b = 0" and "vel mp = Some v"
    and "clear_path [0..<15] dt bodies mp"
  shows "particle_step bodies dt mp = free_step dt mp"
proof -
  have "[0..<16] = [0..<15] @ [15]" by (simp add: upt_rec)
  then show ?thesis
    using foldl_particle_substep_free [OF assms]
    by (simp add: particle_step_def free_step_def)
qed

lemma foldl_drift:
  "MP.pos mp = Some p \<Longrightarrow> vel mp = Some v \<Longrightarrow>
   foldl (\<lambda>m i. drift (cs ! i) dt m) mp js
   = mp\<lparr>MP.pos := Some (vec_add p (vec_scale (sum_list (map ((!) cs) js) * dt) v))\<rparr>"
proof (induction js arbitrary: mp p)
  case Nil
  obtain x y z where "p = (x, y, z)" by (cases p)
  moreover obtain a b c where "v = (a, b, c)" by (cases v)
  ultimately show ?case using Nil by simp
next
  case (Cons i js)
  obtain x y z where p: "p = (x, y, z)" by (cases p)
  obtain a b c where v: "v = (a, b, c)" by (cases v)
  define p1 where "p1 = (x + a * cs ! i * dt, y + b * cs ! i * dt, z + c * cs ! i * dt)"
  have d: "drift (cs ! i) dt mp = mp\<lparr>MP.pos := Some p1\<rparr>"
    using Cons.prems by (simp add: drift_def p v p1_def)
  have "foldl (\<lambda>m i. drift (cs ! i) dt m) (mp\<lparr>MP.pos := Some p1\<rparr>) js
        = mp\<lparr>MP.pos := Some p1\<rparr>\<lparr>MP.pos := Some (vec_add p1 (vec_scale (sum_list (map ((!) cs) js) * dt) v))\<rparr>"
    by (rule Cons.IH) (simp_all add: Cons.prems)
  then show ?case
    by (simp add: d p1_def p v algebra_simps)
qed

lemma sum_cs_nth: "sum_list (map ((!) cs) [0..<16]) = sum_list cs"
proof -
  have "length cs = 16" by (simp add: cs_def)
  then have "map ((!) cs) [0..<16] = cs" by (metis map_nth)
  then show ?thesis by simp
qed

lemma free_step_closed:
  "MP.pos mp = Some p \<Longrightarrow> vel mp = Some v \<Longrightarrow>
   free_step dt mp = mp\<lparr>MP.pos := Some (vec_add p (vec_scale (sum_list cs * dt) v))\<rparr>"
  by (simp add: free_step_def foldl_drift sum_cs_nth)

lemma update_bodies_GM:
  "update_bodies lib t bodies = Inr bodies1 \<Longrightarrow> \<forall>b\<in>set bodies. GM b = 0 \<Longrightarrow>
   \<forall>b\<in>set bodies1. GM b = 0"
  by (induction bodies arbitrary: bodies1) (auto split: sum.splits)

lemma main_loop_free:
  "\<forall>b\<in>set bodies. GM b = 0 \<Longrightarrow> k < length mps \<Longrightarrow> MP.pos (mps ! k) = Some p \<Longrightarrow>
   vel (mps ! k) = Some v \<Longrightarrow> clear_run lib date_init dt cycles bodies (mps ! k) \<Longrightarrow>
   \<exists>out' mps' bodies' result_str'.
     main_loop lib date_init dt N_cycles cycles (mps, bodies) result_str out
       = (out', Inr ((mps', bodies'), result_str'))
     \<and> length mps' = length mps
     \<and> mps' ! k = (mps ! k)\<lparr>MP.pos :=
          Some (vec_add p (vec_scale (real (length cycles) * (sum_list cs * dt)) v))\<rparr>"
proof (induction cycles arbitrary: mps bodies result_str out p)
  case Nil
  obtain x y z where "p = (x, y, z)" by (cases p)
  moreover obtain a b c where "v = (a, b, c)" by (cases v)
  ultimately show ?case using Nil.prems by simp
next
  case (Cons cycle cycles)
  define t where "t = str2et lib (strftime_iso lib (date_init + of_int cycle * dt))"
  from Cons.prems(5) obtain bodies1 where
    ub: "update_bodies lib t bodies = Inr bodies1"
    and cp: "clear_path [0..<15] dt bodies1 (mps ! k)"
    and cr: "clear_run lib date_init dt cycles bodies1 (free_step dt (mps ! k))"
    by (auto simp: t_def split: sum.splits)
  have gm1: "\<forall>b\<in>set bodies1. GM b = 0"
    using ub Cons.prems(1) by (rule update_bodies_GM)
  define p1 where "p1 = vec_add p (vec_scale (sum_list cs * dt) v)"
  define mps1 where "mps1 = map (particle_step bodies1 dt) mps"
  have step: "stepYoshida8 mps bodies1 dt = (mps1, bodies1)"
    by (simp add: stepYoshida8_particles mps1_def)
  have "particle_step bodies1 dt (mps ! k) = free_step dt (mps ! k)"
    using gm1 Cons.prems(4) cp by (rule particle_step_free)
  moreover have fs: "free_step dt (mps ! k) = (mps ! k)\<lparr>MP.pos := Some p1\<rparr>"
    using Cons.prems(3,4) by (simp add: free_step_closed p1_def)
  ultimately have k1: "mps1 ! k = (mps ! k)\<lparr>MP.pos := Some p1\<rparr>"
    using Cons.prems(2) by (simp add: mps1_def)
  have len1: "k < length mps1" using Cons.prems(2) by (simp add: mps1_def)
  have pos1: "MP.pos (mps1 ! k) = Some p1" by (simp add: k1)
  have vel1: "vel (mps1 ! k) = Some v" using Cons.prems(4) by (simp add: k1)
  have cr1: "clear_run lib date_init dt cycles bodies1 (mps1 ! k)"
    using cr by (simp add: k1 fs)
  define result_str1 where
    "result_str1 = result_str @ result_line lib (strftime_iso lib (date_init + of_int cycle * dt))
                     (of_int cycle * dt) (mps1, bodies1)"
  define out1 where
    "out1 = (if cycle mod 200 = 0
             then out @ [str_float lib (Some (of_int cycle / of_int N_cycles * 100)) @ ''%'']
             else out)"
  from Cons.IH [OF gm1 len1 pos1 vel1 cr1, of result_str1 out1]
  obtain out' mps' bodies' result_str' where
    run: "main_loop lib date_init dt N_cycles cycles (mps1, bodies1) result_str1 out1
          = (out', Inr ((mps', bodies'), result_str'))"
    and len: "length mps' = length mps1"
    and res: "mps' ! k = (mps1 ! k)\<lparr>MP.pos :=
          Some (vec_add p1 (vec_scale (real (length cycles) * (sum_list cs * dt)) v))\<rparr>"
    by blast
  have unfold: "main_loop lib date_init dt N_cycles (cycle # cycles) (mps, bodies) result_str out
      = main_loop lib date_init dt N_cycles cycles (mps1, bodies1) result_str1 out1"
    using ub step by (simp add: t_def Let_def result_str1_def out1_def)
  obtain x y z where p: "p = (x, y, z)" by (cases p)
  obtain a b c where v: "v = (a, b, c)" by (cases v)
  have arith: "vec_add p1 (vec_scale (real (length cycles) * (sum_list cs * dt)) v)
      = vec_add p (vec_scale (real (length (cycle # cycles)) * (sum_list cs * dt)) v)"
    by (simp add: p1_def p v algebra_simps)
  have "length mps' = length mps" using len by (simp add: mps1_def)
  moreover have "mps' ! k = (mps ! k)\<lparr>MP.pos :=
      Some (vec_add p (vec_scale (real (length (cycle # cycles)) * (sum_list cs * dt)) v))\<rparr>"
    using res by (simp add: k1 arith)
  ultimately show ?case
    using run unfold by auto
qed

lemma length_py_range: "length (py_range n) = nat n"
  by (simp add: py_range_def)

lemma sum_cs_bound: "\<bar>sum_list cs - 1\<bar> \<le> 1 / 2 ^ 52"
  by (simp add: cs_def)

text \<open>
  Claim C5. Let all bodies have GM 0, and let a particle with finite position \<open>p\<close> and
  velocity \<open>v\<close> meet no body during the run. Then the main loop completes its
  \<open>N_cycles\<close> macro steps, the particle's velocity is \<open>v\<close> at the end, and its
  position is \<open>p + v \<sqdot> dt \<sqdot> N_cycles\<close> up to the relative deviation
  \<open>sum(c) - 1\<close> of the displacement, which is at most \<open>2\<^sup>-\<^sup>5\<^sup>2\<close> in absolute value.
\<close>

theorem zero_force_invariance:
  assumes "\<forall>b\<in>set bodies. GM b = 0"
    and "k < length mps" and "MP.pos (mps ! k) = Some p" and "vel (mps ! k) = Some v"
    and "clear_run lib date_init dt (py_range N_cycles) bodies (mps ! k)"
  shows "\<exists>out' mps' bodies' result_str'.
     main_loop lib date_init dt N_cycles (py_range N_cycles) (mps, bodies) result_str out
       = (out', Inr ((mps', bodies'), result_str'))
     \<and> length mps' = length mps
     \<and> vel (mps' ! k) = Some v
     \<and> MP.pos (mps' ! k) =
         Some (vec_add (vec_add p (vec_scale (dt * real (nat N_cycles)) v))
                 (vec_scale ((sum_list cs - 1) * (dt * real (nat N_cycles))) v))
     \<and> \<bar>sum_list cs - 1\<bar> \<le> 1 / 2 ^ 52"
proof -
  from main_loop_free [OF assms, of N_cycles result_str out]
  obtain out' mps' bodies' result_str' where
    run: "main_loop lib date_init dt N_cycles (py_range N_cycles) (mps, bodies) result_str out
          = (out', Inr ((mps', bodies'), result_str'))"
    and len: "length mps' = length mps"
    and res: "mps' ! k = (mps ! k)\<lparr>MP.pos :=
          Some (vec_add p (vec_scale (real (length (py_range N_cycles)) * (sum_list cs * dt)) v))\<rparr>"
    by blast
  obtain x y z where p: "p = (x, y, z)" by (cases p)
  obtain a b c where v: "v = (a, b, c)" by (cases v)
  have "vec_add p (vec_scale (real (length (py_range N_cycles)) * (sum_list cs * dt)) v)
      = vec_add (vec_add p (vec_scale (dt * real (nat N_cycles)) v))
          (vec_scale ((sum_list cs - 1) * (dt * real (nat N_cycles))) v)"
    by (simp add: length_py_range p v algebra_simps)
  with run len res assms(4) sum_cs_bound show ?thesis by simp
qed


lemma range16: "[0..<16] = [0, 1, 2, 3, 4, 5, 6, 7, 8, 9, 10, 11, 12, 13, 14, 15]"
  by (simp add: upt_rec)

lemma py_range_2: "py_range 2 = [0, 1]"
  by (simp add: py_range_def upt_rec)

lemma example_clear_run:
  "clear_run example_library 0 1 (py_range 2) [\<lparr>name = ''SUN'', pos = Some (3, 3, 3), GM = 0\<rparr>]
     \<lparr>des = ''2017 BX232'', pos = Some (0, 0, 0), vel = Some (1, 0, 0)\<rparr>"
  by (simp add: py_range_2 example_library_def range15 range16 free_step_def drift_def
      encounter_free_def cs_def)

theorem zero_force_invariance_witness:
  "GM \<lparr>name = ''SUN'', pos = Some (3, 3, 3), GM = 0\<rparr> = 0
   \<and> clear_run example_library 0 1 (py_range 2) [\<lparr>name = ''SUN'', pos = Some (3, 3, 3), GM = 0\<rparr>]
       \<lparr>des = ''2017 BX232'', pos = Some (0, 0, 0), vel = Some (1, 0, 0)\<rparr>
   \<and> (\<exists>out' mps' bodies' result_str'.
        main_loop example_library 0 1 2 (py_range 2)
          ([\<lparr>des = ''2017 BX232'', pos = Some (0, 0, 0), vel = Some (1, 0, 0)\<rparr>],
           [\<lparr>name = ''SUN'', pos = Some (3, 3, 3), GM = 0\<rparr>]) [] []
          = (out', Inr ((mps', bodies'), result_str'))
        \<and> vel (mps' ! 0) = Some (1, 0, 0)
        \<and> MP.pos (mps' ! 0) = Some (2 * sum_list cs, 0, 0))"
proof -
  from zero_force_invariance [of "[\<lparr>name = ''SUN'', pos = Some (3, 3, 3), GM = 0\<rparr>]" 0
      "[\<lparr>des = ''2017 BX232'', pos = Some (0, 0, 0), vel = Some (1, 0, 0)\<rparr>]"
      "(0, 0, 0)" "(1, 0, 0)" example_library 0 1 2 "[]" "[]"] example_clear_run
  obtain out' mps' bodies' result_str' where
    "main_loop example_library 0 1 2 (py_range 2)
          ([\<lparr>des = ''2017 BX232'', pos = Some (0, 0, 0), vel = Some (1, 0, 0)\<rparr>],
           [\<lparr>name = ''SUN'', pos = Some (3, 3, 3), GM = 0\<rparr>]) [] []
          = (out', Inr ((mps', bodies'), result_str'))"
    and "vel (mps' ! 0) = Some (1, 0, 0)"
    and "MP.pos (mps' ! 0) = Some (vec_add (vec_add (0, 0, 0) (vec_scale (1 * real (nat 2)) (1, 0, 0)))
                 (vec_scale ((sum_list cs - 1) * (1 * real (nat 2))) (1, 0, 0)))"
    by auto
  then show ?thesis
    using example_clear_run by (auto simp: algebra_simps)
qed

section \<open>The simulation clock\<close>

subsection \<open>Rounding\<close>









subsection \<open>Datetimes\<close>






subsection \<open>The count and the final epoch\<close>





subsection \<open>The main loop runs the cycles of the engine\<close>







subsection \<open>Four runs of the clock\<close>







section \<open>The accuracy check\<close>

lemma validation_loop_map2:
  "i + length mps \<le> length svs \<Longrightarrow>
   validation_loop i mps svs errs = Inr (errs @ map2 position_error mps (drop i svs))"
proof (induction mps arbitrary: i errs)
  case Nil
  show ?case by simp
next
  case (Cons mp mps)
  from Cons.prems have lt: "i < length svs" by simp
  from Cons.prems have "Suc i + length mps \<le> length svs" by simp
  then have IH: "validation_loop (Suc i) mps svs errs'
      = Inr (errs' @ map2 position_error mps (drop (Suc i) svs))" for errs'
    by (rule Cons.IH)
  from lt have "drop i svs = svs ! i # drop (Suc i) svs"
    by (simp add: Cons_nth_drop_Suc)
  with lt IH show ?case by (simp add: py_index_def position_error_def)
qed

lemma position_error_finite:
  "MP.pos mp = Some p \<Longrightarrow> fst sv = Some q \<Longrightarrow>
   position_error mp sv = Some (vec_norm (vec_sub p q) / AU)"
  by (cases p, cases q) (simp add: position_error_def AU_def)

text \<open>
  Claim C6. When the retrieval at the actual final epoch returns a state vector for every
  particle, the accuracy check computes one error per particle, for finite positions
  \<open>|propagated_position - true_position| / AU\<close> with \<open>AU = 1.495979e8\<close>, prints each
  with the unit \<open>AU\<close>, and the run ends with the result file holding the propagated
  \<open>result_str\<close> as it was, whatever the errors are. The instance of the claim, with the
  error 1.0, follows the theorem.
\<close>

theorem validation_report:
  assumes "getMPJPL lib MP_des date_final_actual out = (out1, Inr svs)"
    and "length mps \<le> length svs"
  shows "\<exists>errs.
       validation_loop 0 mps svs [] = Inr errs
     \<and> length errs = length mps
     \<and> (\<forall>i p q. i < length mps \<and> MP.pos (mps ! i) = Some p \<and> fst (svs ! i) = Some q
          \<longrightarrow> errs ! i = Some (vec_norm (vec_sub p q) / AU))
     \<and> main_finish lib MP_des date_final_actual result_filename enter_to_quit mps result_str out
         = (quit_prompt enter_to_quit
              (out1 @ ['''', ''Validation - Minor planet final position errors:'']
               @ map (\<lambda>e. str_float lib e @ '' AU'') errs
               @ ['''', ''Writing results to '' @ result_filename @ '' ...'',
                  ''Results exported.'', '''', ''END PROGRAM'']),
            Inr (result_filename, result_str))
     \<and> AU = 1.495979 * 10 ^ 8"
proof -
  define errs where "errs = map2 position_error mps svs"
  have v: "validation_loop 0 mps svs [] = Inr errs"
    using assms(2) by (simp add: validation_loop_map2 errs_def)
  have l: "length errs = length mps"
    using assms(2) by (simp add: errs_def)
  have n: "errs ! i = Some (vec_norm (vec_sub p q) / AU)"
    if "i < length mps \<and> MP.pos (mps ! i) = Some p \<and> fst (svs ! i) = Some q" for i p q
    using that assms(2) by (simp add: errs_def position_error_finite)
  have m: "main_finish lib MP_des date_final_actual result_filename enter_to_quit mps result_str out
         = (quit_prompt enter_to_quit
              (out1 @ ['''', ''Validation - Minor planet final position errors:'']
               @ map (\<lambda>e. str_float lib e @ '' AU'') errs
               @ ['''', ''Writing results to '' @ result_filename @ '' ...'',
                  ''Results exported.'', '''', ''END PROGRAM'']),
            Inr (result_filename, result_str))"
    by (simp add: main_finish_def assms(1) v)
  have a: "AU = 1.495979 * 10 ^ 8" by (simp add: AU_def)
  from v l n m a show ?thesis by blast
qed

lemma horizons_example_get:
  "getMPJPL horizons_example [''2017 BX232''] t []
   = ([], Inr [(Some (149597901, 0, 0), Some (0, 1, 0))])"
  by (simp add: getMPJPL_def horizons_example_def example_library_def horizons_url_def
      on_response_def parseMPJPL_def float_array_def Let_def)

theorem validation_report_witness:
  "getMPJPL horizons_example [''2017 BX232''] 0 []
     = ([], Inr [(Some (1 + 1.495979 * 10 ^ 8, 0, 0), Some (0, 1, 0))])
   \<and> validation_loop 0 [\<lparr>des = ''2017 BX232'', pos = Some (1, 0, 0), vel = Some (0, 0, 0)\<rparr>]
        [(Some (1 + 1.495979 * 10 ^ 8, 0, 0), Some (0, 1, 0))] [] = Inr [Some 1]
   \<and> snd (main_finish horizons_example [''2017 BX232''] 0 ''results.txt'' False
        [\<lparr>des = ''2017 BX232'', pos = Some (1, 0, 0), vel = Some (0, 0, 0)\<rparr>] ''propagated'' [])
       = Inr (''results.txt'', ''propagated'')"
proof -
  have g: "getMPJPL horizons_example [''2017 BX232''] 0 []
     = ([], Inr [(Some (1 + 1.495979 * 10 ^ 8, 0, 0), Some (0, 1, 0))])"
    by (simp add: horizons_example_get)
  from validation_report [OF g, of "[\<lparr>des = ''2017 BX232'', pos = Some (1, 0, 0), vel = Some (0, 0, 0)\<rparr>]"
      "''results.txt''" False "''propagated''"]
  obtain errs where
    v: "validation_loop 0 [\<lparr>des = ''2017 BX232'', pos = Some (1, 0, 0), vel = Some (0, 0, 0)\<rparr>]
        [(Some (1 + 1.495979 * 10 ^ 8, 0, 0), Some (0, 1, 0))] [] = Inr errs"
    and l: "length errs = 1"
    and e: "errs ! 0 = Some (vec_norm (vec_sub (1, 0, 0) (1 + 1.495979 * 10 ^ 8, 0, 0)) / AU)"
    and m: "snd (main_finish horizons_example [''2017 BX232''] 0 ''results.txt'' False
        [\<lparr>des = ''2017 BX232'', pos = Some (1, 0, 0), vel = Some (0, 0, 0)\<rparr>] ''propagated'' [])
       = Inr (''results.txt'', ''propagated'')"
    by auto
  from l obtain x where "errs = [x]" by (cases errs) auto
  with e have "errs = [Some 1]" by (simp add: AU_def)
  with g v m show ?thesis by simp
qed

section \<open>Retrieval failures\<close>

lemma on_response_Inr:
  assumes "on_response lib r svs out = Inr (svs1, out1)"
  shows "length svs1 = length svs + (if status_code r = 200 then 1 else 0)"
    and "set out \<subseteq> set out1"
    and "error_line (status_code r) = Some line \<Longrightarrow> line \<in> set out1"
  using assms
  by (auto simp: on_response_def error_line_def split: if_splits sum.splits)

lemma getMPJPL_loop_Inr:
  "getMPJPL_loop lib start stop n i dl svs out = (out1, Inr svs1) \<Longrightarrow>
   length svs1
     = length svs
       + length (filter (\<lambda>d. \<exists>r. requests_get lib (horizons_url (''DES='' @ d) start stop) = Inr r
                              \<and> status_code r = 200) dl)
   \<and> set out \<subseteq> set out1
   \<and> (\<forall>d\<in>set dl. \<forall>r line.
         requests_get lib (horizons_url (''DES='' @ d) start stop) = Inr r
         \<and> error_line (status_code r) = Some line \<longrightarrow> line \<in> set out1)
   \<and> (\<forall>d\<in>set dl. \<exists>r. requests_get lib (horizons_url (''DES='' @ d) start stop) = Inr r)"
proof (induction dl arbitrary: i svs out)
  case Nil
  then show ?case by simp
next
  case (Cons d dl)
  define url where "url = horizons_url (''DES='' @ d) start stop"
  from Cons.prems obtain r where r: "requests_get lib url = Inr r"
    by (cases "requests_get lib url") (simp_all add: url_def Let_def)
  from Cons.prems r obtain svs' out' where o: "on_response lib r svs out = Inr (svs', out')"
    by (cases "on_response lib r svs out") (auto simp: url_def Let_def)
  define out'' where
    "out'' = (if 1 < i \<and> i mod 20 = 0
              then out' @ [''Getting minor planet state vectors: ''
                           @ str_float lib (Some (real i / real n * 100)) @ '' %'']
              else out')"
  have rest: "getMPJPL_loop lib start stop n (Suc i) dl svs' out'' = (out1, Inr svs1)"
    using Cons.prems r o by (simp add: url_def Let_def out''_def)
  note IH = Cons.IH [OF rest]
  have sub: "set out' \<subseteq> set out''" by (auto simp: out''_def)
  have here: "(\<exists>r'. requests_get lib url = Inr r' \<and> status_code r' = 200) \<longleftrightarrow> status_code r = 200"
    by (simp add: r)
  have len: "length svs1
     = length svs
       + length (filter (\<lambda>d. \<exists>r. requests_get lib (horizons_url (''DES='' @ d) start stop) = Inr r
                              \<and> status_code r = 200) (d # dl))"
    using IH on_response_Inr(1) [OF o] here by (simp add: url_def)
  have mono: "set out \<subseteq> set out1"
    using IH on_response_Inr(2) [OF o] sub by blast
  have lines: "line \<in> set out1"
    if "d' \<in> set (d # dl)" "requests_get lib (horizons_url (''DES='' @ d') start stop) = Inr r'"
      "error_line (status_code r') = Some line" for d' r' line
  proof (cases "d' \<in> set dl")
    case True
    with IH that show ?thesis by blast
  next
    case False
    with that have "d' = d" by simp
    with that r have "r' = r" by (simp add: url_def)
    with that on_response_Inr(3) [OF o] have "line \<in> set out'" by simp
    with sub IH show ?thesis by blast
  qed
  have all: "\<forall>d\<in>set (d # dl). \<exists>r. requests_get lib (horizons_url (''DES='' @ d) start stop) = Inr r"
    using IH r by (simp add: url_def)
  from len mono lines all show ?case by blast
qed

lemma length_filter_less:
  "d \<in> set dl \<Longrightarrow> \<not> P d \<Longrightarrow> length (filter P dl) < length dl"
  by (induction dl) (auto simp: less_Suc_eq_le)

lemma setup_loop_short:
  "k \<le> length svs \<Longrightarrow> length svs < n \<Longrightarrow> n \<le> length MP_des \<Longrightarrow>
   setup_loop MP_des svs [k..<n] mps = Inl IndexError"
proof (induction "length svs - k" arbitrary: k mps)
  case 0
  then have "k = length svs" by simp
  with "0.prems" have "[k..<n] = k # [Suc k..<n]" by (simp add: upt_rec)
  with \<open>k = length svs\<close> show ?case by (simp add: py_index_def)
next
  case (Suc m)
  then have lt: "k < length svs" by simp
  with Suc.prems have u: "[k..<n] = k # [Suc k..<n]" by (simp add: upt_rec)
  have "setup_loop MP_des svs [Suc k..<n] mps' = Inl IndexError" for mps'
    using Suc.hyps Suc.prems lt by (intro Suc.hyps(1)) simp_all
  with lt Suc.prems show ?case by (simp add: u py_index_def)
qed






text \<open>
  Claim C10. Let the configuration be read, let \<open>getMPJPL\<close> return a list, and let the
  service have answered some designation of the configuration with a status other than
  200. Then the list is strictly shorter than the designation list, the particle-setup
  loop over \<open>range(len(MP_des))\<close> raises \<open>IndexError\<close>, and \<open>main\<close> ends there, with
  that exception and the output of configuration reading and retrieval: before the
  propagation.
\<close>

theorem partial_retrieval_aborts:
  assumes cfg: "read_config lib enter_to_quit0 filename banner
                 = (out, Inr (t_0, t_f, dt, MP_des, result_filename, enter_to_quit))"
    and get: "getMPJPL lib MP_des t_0 out = (out1, Inr MP_statevectors)"
    and nok: "d \<in> set MP_des" "request lib t_0 d = Inr r" "status_code r \<noteq> 200"
  shows "length MP_statevectors < length MP_des
         \<and> setup_loop MP_des MP_statevectors [0..<length MP_des] [] = Inl IndexError
         \<and> main lib enter_to_quit0 filename = (out1, Inl IndexError)"
proof -
  define start where "start = strftime_date lib t_0"
  define stop where "stop = strftime_date lib (t_0 + 1 * day)"
  from get have loop:
    "getMPJPL_loop lib start stop (length MP_des) 0 MP_des [] out = (out1, Inr MP_statevectors)"
    by (simp add: getMPJPL_def Let_def start_def stop_def)
  from nok have "\<not> (\<exists>r'. requests_get lib (horizons_url (''DES='' @ d) start stop) = Inr r'
                        \<and> status_code r' = 200)"
    by (simp add: request_def start_def stop_def)
  with getMPJPL_loop_Inr [OF loop] nok(1) have short: "length MP_statevectors < length MP_des"
    using length_filter_less [of d MP_des
        "\<lambda>d. \<exists>r. requests_get lib (horizons_url (''DES='' @ d) start stop) = Inr r
               \<and> status_code r = 200"]
    by simp
  then have ie: "setup_loop MP_des MP_statevectors [0..<length MP_des] [] = Inl IndexError"
    by (simp add: setup_loop_short)
  have "main lib enter_to_quit0 filename = (out1, Inl IndexError)"
    by (simp add: main_def cfg get ie)
  with short ie show ?thesis by simp
qed

subsection \<open>Example runs\<close>

lemmas example_defs =
  config_example_def horizons_example_def example_library_def

lemmas config_defs =
  read_config_def read_loop.simps process_line_def startswith_def split_first_def slice_def
  remove_spaces_def unbound_def check_assigned_def print_designations_def quit_prompt_def
  banner_def Let_def

lemmas retrieval_defs =
  getMPJPL_def on_response_def parseMPJPL_def float_array_def horizons_url_def Let_def

lemma config_example_read:
  "read_config config_example False ''minorbit.txt'' banner
   = (['' = = = MINORBIT = = ='', ''Version 2.2.0'', ''Authors: H. A. Guler'', [], [],
       ''Reading inputs from minorbit.txt...'', ''Loading inputs from minorbit.txt ...'', [],
       ''Inputs:'', ''T0 '', ''TF '', ''DT  seconds'', ''RF results.txt'',
       ''DES 2017 BX232, 2017 AC64'', []],
      Inr (midnight 2024 1 1, midnight 2024 1 11, day, [''2017 BX232'', ''2017 AC64''],
           ''results.txt'', False))"
  by (simp add: config_defs example_defs)

lemma config_example_get:
  "getMPJPL config_example [''2017 BX232'', ''2017 AC64''] t out
   = (out @ [''Error 400 Bad Request''], Inr [(Some (149597901, 0, 0), Some (0, 1, 0))])"
  by (simp add: retrieval_defs example_defs)

lemma config_example_request:
  "request config_example t ''2017 AC64'' = Inr \<lparr>status_code = 400, text = []\<rparr>"
  by (simp add: request_def horizons_url_def example_defs)

theorem partial_retrieval_aborts_witness:
  "snd (read_config config_example False ''minorbit.txt'' banner)
     = Inr (midnight 2024 1 1, midnight 2024 1 11, day, [''2017 BX232'', ''2017 AC64''],
            ''results.txt'', False)
   \<and> snd (getMPJPL config_example [''2017 BX232'', ''2017 AC64''] (midnight 2024 1 1) [])
       = Inr [(Some (149597901, 0, 0), Some (0, 1, 0))]
   \<and> request config_example (midnight 2024 1 1) ''2017 AC64''
       = Inr \<lparr>status_code = 400, text = []\<rparr>
   \<and> setup_loop [''2017 BX232'', ''2017 AC64''] [(Some (149597901, 0, 0), Some (0, 1, 0))]
        [0..<length [''2017 BX232'', ''2017 AC64'']] [] = Inl IndexError
   \<and> snd (main config_example False ''minorbit.txt'') = Inl IndexError
   \<and> ''Propagation starts...'' \<notin> set (fst (main config_example False ''minorbit.txt''))"
proof -
  have T: "length [(Some (149597901 :: real, 0 :: real, 0 :: real),
                    Some (0 :: real, 1 :: real, 0 :: real))]
             < length [''2017 BX232'', ''2017 AC64'']
     \<and> setup_loop [''2017 BX232'', ''2017 AC64''] [(Some (149597901, 0, 0), Some (0, 1, 0))]
          [0..<length [''2017 BX232'', ''2017 AC64'']] [] = Inl IndexError
     \<and> main config_example False ''minorbit.txt''
         = (['' = = = MINORBIT = = ='', ''Version 2.2.0'', ''Authors: H. A. Guler'', [], [],
              ''Reading inputs from minorbit.txt...'', ''Loading inputs from minorbit.txt ...'',
              [], ''Inputs:'', ''T0 '', ''TF '', ''DT  seconds'', ''RF results.txt'',
              ''DES 2017 BX232, 2017 AC64'', []]
              @ [''Error 400 Bad Request''], Inl IndexError)"
    by (rule partial_retrieval_aborts
          [OF config_example_read config_example_get _ config_example_request])
       simp_all
  from T have s: "setup_loop [''2017 BX232'', ''2017 AC64'']
        [(Some (149597901, 0, 0), Some (0, 1, 0))]
        [0..<length [''2017 BX232'', ''2017 AC64'']] [] = Inl IndexError"
    by (rule conjunct1 [OF conjunct2])
  from T have m: "main config_example False ''minorbit.txt''
         = (['' = = = MINORBIT = = ='', ''Version 2.2.0'', ''Authors: H. A. Guler'', [], [],
              ''Reading inputs from minorbit.txt...'', ''Loading inputs from minorbit.txt ...'',
              [], ''Inputs:'', ''T0 '', ''TF '', ''DT  seconds'', ''RF results.txt'',
              ''DES 2017 BX232, 2017 AC64'', []]
              @ [''Error 400 Bad Request''], Inl IndexError)"
    by (rule conjunct2 [OF conjunct2])
  have p: "''Propagation starts...'' \<notin> set (fst (main config_example False ''minorbit.txt''))"
    by (simp add: m)
  have e: "snd (main config_example False ''minorbit.txt'') = Inl IndexError"
    by (simp add: m)
  have r: "snd (read_config config_example False ''minorbit.txt'' banner)
     = Inr (midnight 2024 1 1, midnight 2024 1 11, day, [''2017 BX232'', ''2017 AC64''],
            ''results.txt'', False)"
    by (simp add: config_example_read)
  have g: "snd (getMPJPL config_example [''2017 BX232'', ''2017 AC64''] (midnight 2024 1 1) [])
       = Inr [(Some (149597901, 0, 0), Some (0, 1, 0))]"
    by (simp add: config_example_get)
  from r g config_example_request [of "midnight 2024 1 1"] s e p show ?thesis
    by (intro conjI)
qed







section \<open>An example run of the clock\<close>







section \<open>Missing directives\<close>

lemma process_line_vars:
  assumes "process_line lib line v = Inr v'"
  shows "(var_t_0 v' = None \<longleftrightarrow> var_t_0 v = None \<and> \<not> startswith line ''T0 '')"
    and "(var_t_f v' = None \<longleftrightarrow> var_t_f v = None \<and> \<not> startswith line ''TF '')"
    and "(var_dt v' = None \<longleftrightarrow> var_dt v = None \<and> \<not> startswith line ''DT '')"
    and "(var_result_filename v' = None
          \<longleftrightarrow> var_result_filename v = None \<and> \<not> startswith line ''RF '')"
  using assms
  by (auto simp: process_line_def startswith_def split: if_splits sum.splits option.splits)

lemma process_lines_vars:
  "process_lines lib lines v = Inr v' \<Longrightarrow>
     (var_t_0 v' = None \<longleftrightarrow> var_t_0 v = None \<and> \<not> has_directive ''T0 '' lines)
   \<and> (var_t_f v' = None \<longleftrightarrow> var_t_f v = None \<and> \<not> has_directive ''TF '' lines)
   \<and> (var_dt v' = None \<longleftrightarrow> var_dt v = None \<and> \<not> has_directive ''DT '' lines)
   \<and> (var_result_filename v' = None
        \<longleftrightarrow> var_result_filename v = None \<and> \<not> has_directive ''RF '' lines)"
proof (induction lines arbitrary: v)
  case Nil
  then show ?case by (simp add: has_directive_def)
next
  case (Cons line lines)
  from Cons.prems obtain v1 where
    one: "process_line lib line v = Inr v1" and rest: "process_lines lib lines v1 = Inr v'"
    by (auto split: sum.splits)
  have h: "has_directive p (line # lines) \<longleftrightarrow> startswith line p \<or> has_directive p lines" for p
    by (simp add: has_directive_def)
  show ?case
    using Cons.IH [OF rest] process_line_vars [OF one] by (simp add: h)
qed

lemma check_assigned_missing:
  assumes "var_t_0 v = None \<or> var_t_f v = None \<or> var_dt v = None \<or> var_result_filename v = None"
  shows "\<exists>out0.
      var_t_0 v = None
      \<and> check_assigned lib enter_to_quit v out
          = (quit_prompt enter_to_quit (out0 @ [''ERROR: T0 not assigned!'']), Inl SystemExit)
    \<or> var_t_f v = None
      \<and> check_assigned lib enter_to_quit v out
          = (quit_prompt enter_to_quit (out0 @ [''ERROR: TF not assigned!'']), Inl SystemExit)
    \<or> var_dt v = None
      \<and> check_assigned lib enter_to_quit v out
          = (quit_prompt enter_to_quit (out0 @ [''ERROR: DT not assigned!'']), Inl SystemExit)
    \<or> var_result_filename v = None
      \<and> check_assigned lib enter_to_quit v out
          = (quit_prompt enter_to_quit (out0 @ [''ERROR: RF not assigned!'']), Inl SystemExit)"
proof (cases "var_t_0 v")
  case None
  then show ?thesis
    by (intro exI [of _ out]) (simp add: check_assigned_def)
next
  case t0: (Some a)
  show ?thesis
  proof (cases "var_t_f v")
    case None
    with t0 show ?thesis
      by (intro exI [of _ "out @ [''T0 '' @ str_datetime lib a]"])
         (simp add: check_assigned_def Let_def)
  next
    case tf: (Some b)
    show ?thesis
    proof (cases "var_dt v")
      case None
      with t0 tf show ?thesis
        by (intro exI [of _ "out @ [''T0 '' @ str_datetime lib a, ''TF '' @ str_datetime lib b]"])
           (simp add: check_assigned_def Let_def)
    next
      case d: (Some c)
      with t0 tf assms have "var_result_filename v = None" by simp
      with t0 tf d show ?thesis
        by (intro exI [of _ "out @ [''T0 '' @ str_datetime lib a, ''TF '' @ str_datetime lib b,
                                    ''DT '' @ str_float lib (Some c) @ '' seconds'']"])
           (simp add: check_assigned_def Let_def)
    qed
  qed
qed

text \<open>
  Claim C8. Let the configuration file be read, and let one of the directives T0, TF, DT
  and RF be absent. Then \<open>read_config\<close> does not return: it ends with an exception, and
  \<open>main\<close> ends with the same exception and the same output, so nothing after
  configuration reading runs. When every line of the file is processed without an
  exception of its own, the exception is the \<open>SystemExit\<close> of \<open>quit()\<close>, and the
  output ends with \<open>ERROR: X not assigned!\<close> for an absent directive X (followed by the
  prompt when \<open>enter_to_quit\<close> is set).
\<close>

theorem missing_directive_is_fatal:
  assumes "readlines lib filename = Some lines"
    and "\<not> has_directive ''T0 '' lines \<or> \<not> has_directive ''TF '' lines
         \<or> \<not> has_directive ''DT '' lines \<or> \<not> has_directive ''RF '' lines"
  shows "\<exists>out1 e.
       read_config lib enter_to_quit filename banner = (out1, Inl e)
     \<and> main lib enter_to_quit filename = (out1, Inl e)
     \<and> (\<forall>v. process_lines lib lines unbound = Inr v \<longrightarrow>
           e = SystemExit
           \<and> (\<exists>out0 x. x \<in> set [''T0'', ''TF'', ''DT'', ''RF'']
                \<and> \<not> has_directive (x @ '' '') lines
                \<and> out1 = quit_prompt enter_to_quit
                           (out0 @ [''ERROR: '' @ x @ '' not assigned!''])))"
proof (cases "process_lines lib lines unbound")
  case (Inl e)
  have "read_config lib enter_to_quit filename banner
        = (banner @ ['''', ''Reading inputs from '' @ filename @ ''...''], Inl e)"
    by (simp add: read_config_def assms(1) Inl)
  moreover from this have "main lib enter_to_quit filename
        = (banner @ ['''', ''Reading inputs from '' @ filename @ ''...''], Inl e)"
    by (simp add: main_def)
  ultimately show ?thesis using Inl by auto
next
  case (Inr v)
  have "\<exists>out2. read_config lib enter_to_quit filename banner
      = (case check_assigned lib enter_to_quit v out2 of
           (out3, Inl e) \<Rightarrow> (out3, Inl e)
         | (out3, Inr (t_0, t_f, dt, result_filename)) \<Rightarrow>
             (print_designations (var_MPdes v) out3 @ [[]],
              Inr (t_0, t_f, dt, var_MPdes v, result_filename, enter_to_quit)))"
    unfolding read_config_def Let_def
    by (subst read_loop.simps)
       (simp only: assms(1) Inr option.case sum.case prod.case, rule exI, rule refl)
  then obtain out2 where rc: "read_config lib enter_to_quit filename banner
      = (case check_assigned lib enter_to_quit v out2 of
           (out3, Inl e) \<Rightarrow> (out3, Inl e)
         | (out3, Inr (t_0, t_f, dt, result_filename)) \<Rightarrow>
             (print_designations (var_MPdes v) out3 @ [[]],
              Inr (t_0, t_f, dt, var_MPdes v, result_filename, enter_to_quit)))"
    by blast
  have unb: "var_t_0 unbound = None" "var_t_f unbound = None" "var_dt unbound = None"
    "var_result_filename unbound = None"
    by (simp_all add: unbound_def)
  note V = process_lines_vars [OF Inr, unfolded unb simp_thms]
  from V assms(2) have missing:
    "var_t_0 v = None \<or> var_t_f v = None \<or> var_dt v = None \<or> var_result_filename v = None"
    by auto
  from check_assigned_missing [OF missing, of lib enter_to_quit out2]
  obtain out0 where
    "var_t_0 v = None
      \<and> check_assigned lib enter_to_quit v out2
          = (quit_prompt enter_to_quit (out0 @ [''ERROR: T0 not assigned!'']), Inl SystemExit)
    \<or> var_t_f v = None
      \<and> check_assigned lib enter_to_quit v out2
          = (quit_prompt enter_to_quit (out0 @ [''ERROR: TF not assigned!'']), Inl SystemExit)
    \<or> var_dt v = None
      \<and> check_assigned lib enter_to_quit v out2
          = (quit_prompt enter_to_quit (out0 @ [''ERROR: DT not assigned!'']), Inl SystemExit)
    \<or> var_result_filename v = None
      \<and> check_assigned lib enter_to_quit v out2
          = (quit_prompt enter_to_quit (out0 @ [''ERROR: RF not assigned!'']), Inl SystemExit)"
    by blast
  then consider
    (T0) "var_t_0 v = None" "check_assigned lib enter_to_quit v out2
          = (quit_prompt enter_to_quit (out0 @ [''ERROR: T0 not assigned!'']), Inl SystemExit)"
  | (TF) "var_t_f v = None" "check_assigned lib enter_to_quit v out2
          = (quit_prompt enter_to_quit (out0 @ [''ERROR: TF not assigned!'']), Inl SystemExit)"
  | (DT) "var_dt v = None" "check_assigned lib enter_to_quit v out2
          = (quit_prompt enter_to_quit (out0 @ [''ERROR: DT not assigned!'']), Inl SystemExit)"
  | (RF) "var_result_filename v = None" "check_assigned lib enter_to_quit v out2
          = (quit_prompt enter_to_quit (out0 @ [''ERROR: RF not assigned!'']), Inl SystemExit)"
    by argo
  then have "\<exists>x. x \<in> set [''T0'', ''TF'', ''DT'', ''RF'']
      \<and> \<not> has_directive (x @ '' '') lines
      \<and> check_assigned lib enter_to_quit v out2
        = (quit_prompt enter_to_quit (out0 @ [''ERROR: '' @ x @ '' not assigned!'']), Inl SystemExit)"
  proof cases
    case T0
    with V show ?thesis by (intro exI [of _ "''T0''"]) simp
  next
    case TF
    with V show ?thesis by (intro exI [of _ "''TF''"]) simp
  next
    case DT
    with V show ?thesis by (intro exI [of _ "''DT''"]) simp
  next
    case RF
    with V show ?thesis by (intro exI [of _ "''RF''"]) simp
  qed
  then obtain x where x: "x \<in> set [''T0'', ''TF'', ''DT'', ''RF'']"
    and nx: "\<not> has_directive (x @ '' '') lines"
    and ca: "check_assigned lib enter_to_quit v out2
        = (quit_prompt enter_to_quit (out0 @ [''ERROR: '' @ x @ '' not assigned!'']), Inl SystemExit)"
    by blast
  have r: "read_config lib enter_to_quit filename banner
      = (quit_prompt enter_to_quit (out0 @ [''ERROR: '' @ x @ '' not assigned!'']), Inl SystemExit)"
    by (simp add: rc ca)
  then have m: "main lib enter_to_quit filename
      = (quit_prompt enter_to_quit (out0 @ [''ERROR: '' @ x @ '' not assigned!'']), Inl SystemExit)"
    by (simp add: main_def)
  from r m x nx Inr show ?thesis by blast
qed

lemma config_example_no_rf:
  "read_config config_example True ''no_rf.txt'' banner
   = (['' = = = MINORBIT = = ='', ''Version 2.2.0'', ''Authors: H. A. Guler'', [], [],
       ''Reading inputs from no_rf.txt...'', ''Loading inputs from no_rf.txt ...'', [],
       ''Inputs:'', ''T0 '', ''TF '', ''DT  seconds'', ''ERROR: RF not assigned!'',
       ''Press Enter to quit.''],
      Inl SystemExit)"
  by (simp add: config_defs example_defs)

theorem missing_directive_is_fatal_witness:
  "readlines config_example ''no_rf.txt''
     = Some [''T0 2024-01-01'' @ [CHR 0x0A], ''TF 2024-01-11'' @ [CHR 0x0A],
             ''DT 1'' @ [CHR 0x0A], ''MP 2017 BX232'' @ [CHR 0x0A]]
   \<and> \<not> has_directive ''RF '' [''T0 2024-01-01'' @ [CHR 0x0A], ''TF 2024-01-11'' @ [CHR 0x0A],
             ''DT 1'' @ [CHR 0x0A], ''MP 2017 BX232'' @ [CHR 0x0A]]
   \<and> main config_example True ''no_rf.txt''
       = (['' = = = MINORBIT = = ='', ''Version 2.2.0'', ''Authors: H. A. Guler'', [], [],
           ''Reading inputs from no_rf.txt...'', ''Loading inputs from no_rf.txt ...'', [],
           ''Inputs:'', ''T0 '', ''TF '', ''DT  seconds'', ''ERROR: RF not assigned!'',
           ''Press Enter to quit.''],
          Inl SystemExit)"
proof -
  have f: "readlines config_example ''no_rf.txt''
     = Some [''T0 2024-01-01'' @ [CHR 0x0A], ''TF 2024-01-11'' @ [CHR 0x0A],
             ''DT 1'' @ [CHR 0x0A], ''MP 2017 BX232'' @ [CHR 0x0A]]"
    by (simp add: example_defs)
  have h: "\<not> has_directive ''RF '' [''T0 2024-01-01'' @ [CHR 0x0A], ''TF 2024-01-11'' @ [CHR 0x0A],
             ''DT 1'' @ [CHR 0x0A], ''MP 2017 BX232'' @ [CHR 0x0A]]"
    by (simp add: has_directive_def startswith_def)
  from missing_directive_is_fatal [OF f, of True] h
  obtain out1 e where "read_config config_example True ''no_rf.txt'' banner = (out1, Inl e)"
    and "main config_example True ''no_rf.txt'' = (out1, Inl e)"
    by blast
  with f h show ?thesis by (simp add: config_example_no_rf)
qed

end
